theory Spec2Isabelle
  imports Main "HOL-Library.Word"
begin

section \<open>The fill feed: data model\<close>

text \<open>
  A shallow embedding of \<^verbatim>\<open>src/fillFeed.ts\<close>. The class \<^verbatim>\<open>FillFeed\<close> becomes a record
  that every method takes and returns; a thrown exception becomes the outcome \<open>Threw\<close>
  carrying the state at the moment of the throw; the RPC connection and the functions of
  the Manifest SDK, which are not part of this repository, are parameters.
\<close>

type_synonym byte = "8 word"

text \<open>Poll every 500ms; stop waiting after 30 seconds (the constants at the top of the file).\<close>

definition POLL_INTERVAL :: int where
  "POLL_INTERVAL = 500"

definition TIMEOUT :: int where
  "TIMEOUT = 30000"

datatype error = TypeError | Error string

text \<open>The outcome of a call on a state: it returned, or it threw and left the state behind.\<close>

datatype 'a outcome = Returned 'a | Threw error 'a

record ConfirmedSignatureInfo =
  signature :: string
  slot :: nat

text \<open>\<^verbatim>\<open>tx.meta.logMessages\<close> and \<^verbatim>\<open>tx.meta.err\<close> may be null: \<open>None\<close>.\<close>

record TransactionMeta =
  logMessages :: "string list option"
  err :: "string option"

record TransactionResponse =
  meta :: "TransactionMeta option"

datatype query = Limit nat | Until "string option"

text \<open>
  The remote ledger. The answer to a signature listing depends on when it is asked: the
  first argument numbers the calls of \<^verbatim>\<open>getSignaturesForAddress\<close> (0 is the one made at
  start-up). Either call may throw.
\<close>

record Connection =
  getSignaturesForAddress :: "nat \<Rightarrow> query \<Rightarrow> error + ConfirmedSignatureInfo list"
  getTransaction :: "string \<Rightarrow> error + TransactionResponse option"

text \<open>The deserialized logs of the SDK; \<^verbatim>\<open>.inner\<close> of a u64 or u128 wrapper is the word itself.\<close>

record FillLog =
  fl_market :: "byte list"
  fl_maker :: "byte list"
  fl_taker :: "byte list"
  fl_price :: "128 word"
  fl_baseAtoms :: "64 word"
  fl_quoteAtoms :: "64 word"
  fl_makerSequenceNumber :: "64 word"
  fl_takerSequenceNumber :: "64 word"
  fl_takerIsBuy :: bool
  fl_isMakerGlobal :: bool

record PlaceOrderLog =
  po_market :: "byte list"
  po_trader :: "byte list"
  po_price :: "128 word"
  po_baseAtoms :: "64 word"
  po_orderSequenceNumber :: "64 word"
  po_orderIndex :: "32 word"
  po_lastValidSlot :: "32 word"
  po_orderType :: nat
  po_isBid :: bool
  po_padding :: "byte list"

text \<open>
  The messages sent to subscribers. A field of TypeScript type \<^verbatim>\<open>number\<close> is an IEEE-754
  double, kept here as its 64 bits.
\<close>

type_synonym number = "64 word"

record FillLogResult =
  market :: string
  maker :: string
  taker :: string
  baseAtoms :: string
  quoteAtoms :: string
  priceAtoms :: number
  takerIsBuy :: bool
  isMakerGlobal :: bool
  makerSequenceNumber :: string
  takerSequenceNumber :: string
  flr_signature :: string
  flr_slot :: nat

record PlaceOrderLogResult =
  por_market :: string
  trader :: string
  por_baseAtoms :: string
  price :: number
  orderSequenceNumber :: string
  orderIndex :: "32 word"
  lastValidSlot :: "32 word"
  orderType :: nat
  isBid :: bool
  padding :: "byte list"
  por_slot :: nat
  por_signature :: string

text \<open>
  What the SDK and the runtime provide: base64 decoding (\<^verbatim>\<open>atob\<close> followed by
  \<^verbatim>\<open>charCodeAt\<close>), the two discriminants, the two deserializers, \<^verbatim>\<open>convertU128\<close> and
  \<^verbatim>\<open>PublicKey.toBase58\<close>.
\<close>

record Sdk =
  atob :: "string \<Rightarrow> error + byte list"
  fillDiscriminant :: "byte list"
  placeOrderDiscriminant :: "byte list"
  FillLog_deserialize :: "byte list \<Rightarrow> error + FillLog"
  PlaceOrderLog_deserialize :: "byte list \<Rightarrow> error + PlaceOrderLog"
  convertU128 :: "128 word \<Rightarrow> number"
  toBase58 :: "byte list \<Rightarrow> string"

datatype message = Fill FillLogResult | PlaceOrder PlaceOrderLogResult

text \<open>The lines written with \<^verbatim>\<open>console.log\<close>, one constructor for each call site.\<close>

datatype log =
    Handling string nat
  | NoLogMessages
  | SkippingFailedTx string
  | NoProgramDatas
  | GotAFill FillLogResult
  | GotAnOrder PlaceOrderLogResult
  | NewLastSignature string nat nat
  | EndedLoop

text \<open>
  The fields of the class. \<open>processingSignatures\<close> is a JavaScript \<^verbatim>\<open>Set\<close>, kept as the
  list of its members in insertion order; \<open>wssClosed\<close> records \<^verbatim>\<open>wss.close()\<close>; \<open>sent\<close> are
  the messages broadcast to the websocket clients, \<open>fills\<close> the label triples of the
  increments of the counter, \<open>console\<close> the log.
\<close>

record FillFeed =
  shouldEnd :: bool
  ended :: bool
  lastUpdateUnix :: int
  processingSignatures :: "string list"
  wssClosed :: bool
  sent :: "message list"
  fills :: "(string \<times> string \<times> string) list"
  console :: "log list"

text \<open>The two local variables of \<^verbatim>\<open>parseLogs\<close> that hold its position.\<close>

record Cursor =
  lastSignature :: "string option"
  lastSlot :: nat

section \<open>JavaScript library functions\<close>

text \<open>\<^verbatim>\<open>Set.has\<close>, \<^verbatim>\<open>Set.add\<close>, \<^verbatim>\<open>Set.delete\<close>, \<^verbatim>\<open>new Set(array)\<close> on insertion-ordered sets.\<close>

definition Set_has :: "'a list \<Rightarrow> 'a \<Rightarrow> bool" where
  "Set_has xs x = (x \<in> set xs)"

definition Set_add :: "'a list \<Rightarrow> 'a \<Rightarrow> 'a list" where
  "Set_add xs x = (if x \<in> set xs then xs else xs @ [x])"

definition Set_delete :: "'a list \<Rightarrow> 'a \<Rightarrow> 'a list" where
  "Set_delete xs x = removeAll x xs"

definition Set_from :: "'a list \<Rightarrow> 'a list" where
  "Set_from xs = foldl Set_add [] xs"

text \<open>\<^verbatim>\<open>array.slice(-n)\<close>: the last \<open>n\<close> elements, all of them when there are fewer.\<close>

definition slice_last :: "nat \<Rightarrow> 'a list \<Rightarrow> 'a list" where
  "slice_last n xs = drop (length xs - n) xs"

text \<open>\<^verbatim>\<open>hay.includes(needle)\<close>.\<close>

fun str_includes :: "string \<Rightarrow> string \<Rightarrow> bool" where
  "str_includes [] needle = (needle = [])"
| "str_includes (c # cs) needle = (take (length needle) (c # cs) = needle \<or> str_includes cs needle)"

text \<open>\<^verbatim>\<open>line.split(" ")\<close>: cut at every single space; empty fields are kept.\<close>

fun split_space :: "string \<Rightarrow> string list" where
  "split_space [] = ['''']"
| "split_space (c # cs) =
     (if c = CHR '' '' then [] # split_space cs
      else (case split_space cs of [] \<Rightarrow> [c # []] | t # ts \<Rightarrow> (c # t) # ts))"

text \<open>\<^verbatim>\<open>array[i]\<close>: \<^verbatim>\<open>undefined\<close> (\<open>None\<close>) out of range.\<close>

definition index :: "'a list \<Rightarrow> nat \<Rightarrow> 'a option" where
  "index xs i = (if i < length xs then Some (xs ! i) else None)"

text \<open>The string a value becomes when a function expecting a string is given it.\<close>

definition toStringArg :: "string option \<Rightarrow> string" where
  "toStringArg v = (case v of None \<Rightarrow> ''undefined'' | Some t \<Rightarrow> t)"

definition bool_toString :: "bool \<Rightarrow> string" where
  "bool_toString b = (if b then ''true'' else ''false'')"

text \<open>\<^verbatim>\<open>toString()\<close> of a big number: its decimal digits.\<close>

definition digit :: "nat \<Rightarrow> char" where
  "digit d = char_of (48 + d)"

fun toString :: "nat \<Rightarrow> string" where
  "toString n = (if n < 10 then [digit n] else toString (n div 10) @ [digit (n mod 10)])"

declare toString.simps [simp del]

text \<open>Reading a decimal string back.\<close>

definition digit_value :: "char \<Rightarrow> nat" where
  "digit_value c = of_char c - 48"

definition decimal_value :: "string \<Rightarrow> nat" where
  "decimal_value cs = foldl (\<lambda>a c. 10 * a + digit_value c) 0 cs"

definition is_digit :: "char \<Rightarrow> bool" where
  "is_digit c = (48 \<le> (of_char c :: nat) \<and> (of_char c :: nat) \<le> 57)"

section \<open>The conversions to messages\<close>

definition toFillLogResult :: "Sdk \<Rightarrow> FillLog \<Rightarrow> nat \<Rightarrow> string \<Rightarrow> FillLogResult" where
  "toFillLogResult sdk fillLog slt sig =
     \<lparr> market = toBase58 sdk (fl_market fillLog),
       maker = toBase58 sdk (fl_maker fillLog),
       taker = toBase58 sdk (fl_taker fillLog),
       baseAtoms = toString (unat (fl_baseAtoms fillLog)),
       quoteAtoms = toString (unat (fl_quoteAtoms fillLog)),
       priceAtoms = convertU128 sdk (fl_price fillLog),
       takerIsBuy = fl_takerIsBuy fillLog,
       isMakerGlobal = fl_isMakerGlobal fillLog,
       makerSequenceNumber = toString (unat (fl_makerSequenceNumber fillLog)),
       takerSequenceNumber = toString (unat (fl_takerSequenceNumber fillLog)),
       flr_signature = sig,
       flr_slot = slt \<rparr>"

definition toPlaceOrderLogResult :: "Sdk \<Rightarrow> PlaceOrderLog \<Rightarrow> nat \<Rightarrow> string \<Rightarrow> PlaceOrderLogResult" where
  "toPlaceOrderLogResult sdk placeOrderLog slt sig =
     \<lparr> por_market = toBase58 sdk (po_market placeOrderLog),
       trader = toBase58 sdk (po_trader placeOrderLog),
       por_baseAtoms = toString (unat (po_baseAtoms placeOrderLog)),
       price = convertU128 sdk (po_price placeOrderLog),
       orderSequenceNumber = toString (unat (po_orderSequenceNumber placeOrderLog)),
       orderIndex = po_orderIndex placeOrderLog,
       lastValidSlot = po_lastValidSlot placeOrderLog,
       orderType = po_orderType placeOrderLog,
       isBid = po_isBid placeOrderLog,
       padding = po_padding placeOrderLog,
       por_slot = slt,
       por_signature = sig \<rparr>"

section \<open>handleSignature\<close>

text \<open>The payload of a selected line: \<^verbatim>\<open>programDataEntry.split(" ")[2]\<close>.\<close>

definition programData :: "string \<Rightarrow> string option" where
  "programData programDataEntry = index (split_space programDataEntry) 2"

text \<open>
  The body of the loop over the selected lines: decode the payload, compare its first
  eight bytes with the two discriminants, deserialize, log, count and broadcast.
\<close>

definition handleEntry :: "Sdk \<Rightarrow> ConfirmedSignatureInfo \<Rightarrow> string \<Rightarrow> FillFeed \<Rightarrow> FillFeed outcome" where
  "handleEntry sdk sg programDataEntry s =
     (case atob sdk (toStringArg (programData programDataEntry)) of
        Inl e \<Rightarrow> Threw e s
      | Inr buffer \<Rightarrow>
          if take 8 buffer = fillDiscriminant sdk then
            (case FillLog_deserialize sdk (drop 8 buffer) of
               Inl e \<Rightarrow> Threw e s
             | Inr deserializedFillLog \<Rightarrow>
                 let r = toFillLogResult sdk deserializedFillLog (slot sg) (signature sg)
                 in Returned (s\<lparr> console := console s @ [GotAFill r],
                                  fills := fills s @
                                    [(toBase58 sdk (fl_market deserializedFillLog),
                                      bool_toString (fl_isMakerGlobal deserializedFillLog),
                                      bool_toString (fl_takerIsBuy deserializedFillLog))],
                                  sent := sent s @ [Fill r] \<rparr>))
          else if take 8 buffer = placeOrderDiscriminant sdk then
            (case PlaceOrderLog_deserialize sdk (drop 8 buffer) of
               Inl e \<Rightarrow> Threw e s
             | Inr deserializedPlaceOrderLog \<Rightarrow>
                 let r = toPlaceOrderLogResult sdk deserializedPlaceOrderLog (slot sg) (signature sg)
                 in Returned (s\<lparr> console := console s @ [GotAnOrder r],
                                  sent := sent s @ [PlaceOrder r] \<rparr>))
          else Returned s)"

fun handleEntries :: "Sdk \<Rightarrow> ConfirmedSignatureInfo \<Rightarrow> string list \<Rightarrow> FillFeed \<Rightarrow> FillFeed outcome" where
  "handleEntries sdk sg [] s = Returned s"
| "handleEntries sdk sg (programDataEntry # rest) s =
     (case handleEntry sdk sg programDataEntry s of
        Threw e s' \<Rightarrow> Threw e s'
      | Returned s' \<Rightarrow> handleEntries sdk sg rest s')"

text \<open>\<^verbatim>\<open>tx?.meta?.logMessages\<close>: \<open>None\<close> when the transaction, its meta or its log is missing.\<close>

definition tx_logMessages :: "TransactionResponse option \<Rightarrow> string list option" where
  "tx_logMessages tx =
     (case tx of None \<Rightarrow> None
      | Some t \<Rightarrow> (case meta t of None \<Rightarrow> None | Some m \<Rightarrow> logMessages m))"

definition tx_err :: "TransactionResponse option \<Rightarrow> string option" where
  "tx_err tx =
     (case tx of None \<Rightarrow> None
      | Some t \<Rightarrow> (case meta t of None \<Rightarrow> None | Some m \<Rightarrow> err m))"

definition handleSignature :: "Sdk \<Rightarrow> Connection \<Rightarrow> ConfirmedSignatureInfo \<Rightarrow> FillFeed \<Rightarrow> FillFeed outcome" where
  "handleSignature sdk conn sg s0 =
     (let s = s0\<lparr> console := console s0 @ [Handling (signature sg) (slot sg)] \<rparr> in
      case getTransaction conn (signature sg) of
        Inl e \<Rightarrow> Threw e s
      | Inr tx \<Rightarrow>
          (case tx_logMessages tx of
             None \<Rightarrow> Returned (s\<lparr> console := console s @ [NoLogMessages] \<rparr>)
           | Some messages \<Rightarrow>
               if tx_err tx \<noteq> None
               then Returned (s\<lparr> console := console s @ [SkippingFailedTx (signature sg)] \<rparr>)
               else
                 let programDatas =
                       Set_from (filter (\<lambda>message. str_includes message ''Program data:'') messages)
                 in if length programDatas = 0
                    then Returned (s\<lparr> console := console s @ [NoProgramDatas] \<rparr>)
                    else handleEntries sdk sg programDatas s))"

section \<open>parseLogs\<close>

text \<open>The loop over the signatures of one batch (lines 167 to 184).\<close>

fun processSignatures ::
  "Sdk \<Rightarrow> Connection \<Rightarrow> nat \<Rightarrow> ConfirmedSignatureInfo list \<Rightarrow> FillFeed \<Rightarrow> FillFeed outcome" where
  "processSignatures sdk conn lastSlt [] s = Returned s"
| "processSignatures sdk conn lastSlt (sg # rest) s =
     (if Set_has (processingSignatures s) (signature sg)
      then processSignatures sdk conn lastSlt rest s
      else if slot sg < lastSlt
      then processSignatures sdk conn lastSlt rest s
      else
        (case handleSignature sdk conn sg
                (s\<lparr> processingSignatures := Set_add (processingSignatures s) (signature sg) \<rparr>) of
           Threw e s' \<Rightarrow> Threw e s'
         | Returned s' \<Rightarrow>
             processSignatures sdk conn lastSlt rest
               (s'\<lparr> processingSignatures := Set_delete (processingSignatures s') (signature sg) \<rparr>)))"

text \<open>The trim at the end of a batch (lines 200 to 204).\<close>

definition trimProcessingSignatures :: "FillFeed \<Rightarrow> FillFeed" where
  "trimProcessingSignatures s =
     (if length (processingSignatures s) > 1000
      then s\<lparr> processingSignatures := Set_from (slice_last 1000 (processingSignatures s)) \<rparr>
      else s)"

text \<open>
  One pass through the body of the \<^verbatim>\<open>while\<close> loop: \<open>k\<close> numbers the listing call and \<open>now\<close>
  is the clock read for the liveness timestamp.
\<close>

definition pollOnce ::
  "Sdk \<Rightarrow> Connection \<Rightarrow> nat \<Rightarrow> int \<Rightarrow> Cursor \<Rightarrow> FillFeed \<Rightarrow> (Cursor \<times> FillFeed) outcome" where
  "pollOnce sdk conn k now c s =
     (case getSignaturesForAddress conn k (Until (lastSignature c)) of
        Inl e \<Rightarrow> Threw e (c, s)
      | Inr listed \<Rightarrow>
          let signatures = rev listed in
          if length signatures < 1 then Returned (c, s)
          else
            (case processSignatures sdk conn (lastSlot c) signatures s of
               Threw e s' \<Rightarrow> Threw e (c, s')
             | Returned s' \<Rightarrow>
                 let newest = last signatures;
                     s'' = s'\<lparr> console := console s' @
                                 [NewLastSignature (signature newest) (slot newest) (length signatures)],
                               lastUpdateUnix := now \<rparr>
                 in Returned (\<lparr> lastSignature = Some (signature newest), lastSlot = slot newest \<rparr>,
                              trimProcessingSignatures s'')))"

text \<open>
  What the environment supplies to one turn of the loop: the clock read by the loop
  condition, whether \<^verbatim>\<open>stopParseLogs\<close> has raised the flag in the meantime, and the clock
  read after the batch.
\<close>

record Tick =
  clockAtTest :: int
  stopRequested :: bool
  clockAfterBatch :: int

text \<open>How a run of \<^verbatim>\<open>parseLogs\<close> stands when the ticks are used up.\<close>

datatype run = Ended FillFeed | Raised error FillFeed | Polling Cursor FillFeed

fun pollLoop :: "Sdk \<Rightarrow> Connection \<Rightarrow> int \<Rightarrow> nat \<Rightarrow> Tick list \<Rightarrow> Cursor \<Rightarrow> FillFeed \<Rightarrow> run" where
  "pollLoop sdk conn endTime k [] c s = Polling c s"
| "pollLoop sdk conn endTime k (t # ts) c s =
     (let s1 = s\<lparr> shouldEnd := shouldEnd s \<or> stopRequested t \<rparr> in
      if \<not> shouldEnd s1 \<and> clockAtTest t < endTime then
        (case pollOnce sdk conn k (clockAfterBatch t) c s1 of
           Threw e (c', s') \<Rightarrow> Raised e s'
         | Returned (c', s') \<Rightarrow> pollLoop sdk conn endTime (Suc k) ts c' s')
      else Ended (s1\<lparr> console := console s1 @ [EndedLoop], wssClosed := True, ended := True \<rparr>))"

text \<open>\<open>endEarly\<close> is an optional flag (absent counts as false); \<open>start\<close> is the clock at entry.\<close>

definition parseLogs :: "Sdk \<Rightarrow> Connection \<Rightarrow> bool \<Rightarrow> int \<Rightarrow> Tick list \<Rightarrow> FillFeed \<Rightarrow> run" where
  "parseLogs sdk conn endEarly start ticks s =
     (case getSignaturesForAddress conn 0 (Limit 1) of
        Inl e \<Rightarrow> Raised e s
      | Inr listed \<Rightarrow>
          (case index listed 0 of
             None \<Rightarrow> Raised TypeError s
           | Some lastSignatureStatus \<Rightarrow>
               let c = \<lparr> lastSignature = Some (signature lastSignatureStatus),
                         lastSlot = slot lastSignatureStatus \<rparr>;
                   endTime = (if endEarly then start + 30000 else start + 1000000000000)
               in pollLoop sdk conn endTime 1 ticks c s))"

section \<open>stopParseLogs\<close>

text \<open>
  The waiting loop tests \<^verbatim>\<open>this.ended\<close>, reads the clock and sleeps. While it sleeps the
  polling loop runs: each poll comes with the clock it reads and with what the polling
  loop has done to the state since the previous test.
\<close>

datatype stopped = Resolved FillFeed | Rejected error FillFeed | Waiting FillFeed

definition shutdownTimeout :: error where
  "shutdownTimeout =
     Error (''failed to stop parseLogs after '' @ toString (nat (TIMEOUT div 1000)) @ '' seconds'')"

fun awaitEnded :: "int \<Rightarrow> (int \<times> (FillFeed \<Rightarrow> FillFeed)) list \<Rightarrow> FillFeed \<Rightarrow> stopped" where
  "awaitEnded start [] s = Waiting s"
| "awaitEnded start ((now, loopDid) # polls) s =
     (let s1 = loopDid s in
      if \<not> ended s1 then
        (if now - start > TIMEOUT then Rejected shutdownTimeout s1
         else awaitEnded start polls s1)
      else Resolved s1)"

definition stopParseLogs :: "int \<Rightarrow> (int \<times> (FillFeed \<Rightarrow> FillFeed)) list \<Rightarrow> FillFeed \<Rightarrow> stopped" where
  "stopParseLogs start polls s = awaitEnded start polls (s\<lparr> shouldEnd := True \<rparr>)"

section \<open>Reading a run\<close>

text \<open>
  The state an outcome carries, the signatures for which \<^verbatim>\<open>handleSignature\<close> was entered
  (one \<open>Handling\<close> line each), the fields that only \<^verbatim>\<open>parseLogs\<close> and
  \<^verbatim>\<open>stopParseLogs\<close> write, and the state a waiting caller finds after a series of polls.
\<close>

fun state_of :: "'a outcome \<Rightarrow> 'a" where
  "state_of (Returned s) = s"
| "state_of (Threw e s) = s"

fun handled :: "log list \<Rightarrow> string list" where
  "handled [] = []"
| "handled (Handling sig slt # ls) = sig # handled ls"
| "handled (l # ls) = handled ls"

definition untouched :: "FillFeed \<Rightarrow> FillFeed \<Rightarrow> bool" where
  "untouched s s' \<longleftrightarrow>
     shouldEnd s' = shouldEnd s \<and> ended s' = ended s \<and> lastUpdateUnix s' = lastUpdateUnix s
     \<and> processingSignatures s' = processingSignatures s \<and> wssClosed s' = wssClosed s"

fun seenBy :: "(int \<times> (FillFeed \<Rightarrow> FillFeed)) list \<Rightarrow> FillFeed \<Rightarrow> FillFeed" where
  "seenBy [] s = s"
| "seenBy ((now, loopDid) # polls) s = seenBy polls (loopDid s)"

text \<open>
  The whitespace-separated tokens of a line, in the words of the specification: the
  maximal runs of characters that are not whitespace (space, tab, line feed, vertical
  tab, form feed, carriage return). This is the reading to compare \<open>programData\<close> with,
  not a function of the source.
\<close>

definition is_whitespace :: "char \<Rightarrow> bool" where
  "is_whitespace c \<longleftrightarrow>
     c = CHR '' '' \<or> c = CHR 0x09 \<or> c = CHR 0x0A \<or> c = CHR 0x0B \<or> c = CHR 0x0C \<or> c = CHR 0x0D"

fun tokens_from :: "string \<Rightarrow> string \<Rightarrow> string list" where
  "tokens_from token [] = (if token = [] then [] else [token])"
| "tokens_from token (c # cs) =
     (if is_whitespace c
      then (if token = [] then tokens_from [] cs else token # tokens_from [] cs)
      else tokens_from (token @ [c]) cs)"

definition whitespace_separated_tokens :: "string \<Rightarrow> string list" where
  "whitespace_separated_tokens line = tokens_from [] line"

section \<open>Example runs\<close>

text \<open>
  The constructor (the field initialisers of the class, \<open>now\<close> being the clock), and
  small environments on which the functions are run.
\<close>

definition FillFeed_new :: "int \<Rightarrow> FillFeed" where
  "FillFeed_new now =
     \<lparr> shouldEnd = False, ended = False, lastUpdateUnix = now, processingSignatures = [],
       wssClosed = False, sent = [], fills = [], console = [] \<rparr>"


definition sdk_none :: Sdk where
  "sdk_none =
     \<lparr> atob = (\<lambda>t. Inl (Error ''InvalidCharacterError'')),
       fillDiscriminant = replicate 8 0,
       placeOrderDiscriminant = replicate 8 1,
       FillLog_deserialize = (\<lambda>b. Inl (Error ''malformed'')),
       PlaceOrderLog_deserialize = (\<lambda>b. Inl (Error ''malformed'')),
       convertU128 = ucast,
       toBase58 = (\<lambda>b. []) \<rparr>"

definition conn_one :: Connection where
  "conn_one =
     \<lparr> getSignaturesForAddress = (\<lambda>k q. Inr [\<lparr> signature = ''B'', slot = 7 \<rparr>]),
       getTransaction = (\<lambda>sig. Inr None) \<rparr>"

definition conn_empty :: Connection where
  "conn_empty =
     \<lparr> getSignaturesForAddress = (\<lambda>k q. Inr []),
       getTransaction = (\<lambda>sig. Inr None) \<rparr>"

definition conn_twice :: Connection where
  "conn_twice =
     \<lparr> getSignaturesForAddress =
         (\<lambda>k q. Inr [\<lparr> signature = ''X'', slot = 5 \<rparr>, \<lparr> signature = ''X'', slot = 5 \<rparr>]),
       getTransaction = (\<lambda>sig. Inr None) \<rparr>"

definition conn_older :: Connection where
  "conn_older =
     \<lparr> getSignaturesForAddress = (\<lambda>k q. Inr [\<lparr> signature = ''O'', slot = 3 \<rparr>]),
       getTransaction = (\<lambda>sig. Inr None) \<rparr>"

definition conn_mixed :: Connection where
  "conn_mixed =
     \<lparr> getSignaturesForAddress =
         (\<lambda>k q. Inr [\<lparr> signature = ''O'', slot = 3 \<rparr>, \<lparr> signature = ''B'', slot = 8 \<rparr>]),
       getTransaction = (\<lambda>sig. Inr None) \<rparr>"

definition cursor_A :: Cursor where
  "cursor_A = \<lparr> lastSignature = Some ''A'', lastSlot = 7 \<rparr>"

definition tick_running :: Tick where
  "tick_running = \<lparr> clockAtTest = 10, stopRequested = False, clockAfterBatch = 50 \<rparr>"

definition tx_failed :: "TransactionResponse option" where
  "tx_failed =
     Some \<lparr> meta = Some \<lparr> logMessages = Some [''Program data: AAAA''],
                           err = Some ''InstructionError'' \<rparr> \<rparr>"

definition conn_failed :: Connection where
  "conn_failed =
     \<lparr> getSignaturesForAddress = (\<lambda>k q. Inr [\<lparr> signature = ''F'', slot = 9 \<rparr>]),
       getTransaction = (\<lambda>sig. Inr tx_failed) \<rparr>"

definition conn_throws :: Connection where
  "conn_throws =
     \<lparr> getSignaturesForAddress = (\<lambda>k q. Inr [\<lparr> signature = ''T'', slot = 8 \<rparr>]),
       getTransaction = (\<lambda>sig. Inl (Error ''429 Too Many Requests'')) \<rparr>"

definition loop_ends :: "FillFeed \<Rightarrow> FillFeed" where
  "loop_ends s = s\<lparr> console := console s @ [EndedLoop], wssClosed := True, ended := True \<rparr>"

definition fillLog_priced :: "128 word \<Rightarrow> FillLog" where
  "fillLog_priced p =
     \<lparr> fl_market = [], fl_maker = [], fl_taker = [], fl_price = p, fl_baseAtoms = 0,
       fl_quoteAtoms = 0, fl_makerSequenceNumber = 0, fl_takerSequenceNumber = 0,
       fl_takerIsBuy = False, fl_isMakerGlobal = False \<rparr>"

definition placeOrderLog_priced :: "128 word \<Rightarrow> PlaceOrderLog" where
  "placeOrderLog_priced p =
     \<lparr> po_market = [], po_trader = [], po_price = p, po_baseAtoms = 0,
       po_orderSequenceNumber = 0, po_orderIndex = 0, po_lastValidSlot = 0, po_orderType = 0,
       po_isBid = False, po_padding = [] \<rparr>"

definition sdk_decoding :: Sdk where
  "sdk_decoding =
     \<lparr> atob = (\<lambda>t. if t = ''AAAA'' then Inr (replicate 8 0 @ [7])
                    else if t = ''BBBB'' then Inr (replicate 8 1 @ [7])
                    else if t = [] then Inr []
                    else Inl (Error ''InvalidCharacterError'')),
       fillDiscriminant = replicate 8 0,
       placeOrderDiscriminant = replicate 8 1,
       FillLog_deserialize = (\<lambda>b. Inr (fillLog_priced 0)),
       PlaceOrderLog_deserialize = (\<lambda>b. Inr (placeOrderLog_priced 0)),
       convertU128 = ucast,
       toBase58 = (\<lambda>b. []) \<rparr>"

definition sig_B :: ConfirmedSignatureInfo where
  "sig_B = \<lparr> signature = ''B'', slot = 7 \<rparr>"

section \<open>Sets in insertion order\<close>

lemma set_Set_add: "set (Set_add xs x) = insert x (set xs)"
  by (auto simp: Set_add_def)

lemma distinct_Set_add: "distinct xs \<Longrightarrow> distinct (Set_add xs x)"
  by (simp add: Set_add_def)






lemma Set_from_Nil [simp]: "Set_from [] = []"
  by (simp add: Set_from_def)

lemma Set_delete_Set_add: "x \<notin> set xs \<Longrightarrow> Set_delete (Set_add xs x) x = xs"
  by (simp add: Set_delete_def Set_add_def)


lemma lastUpdateUnix_trim [simp]:
  "lastUpdateUnix (trimProcessingSignatures s) = lastUpdateUnix s"
  by (simp add: trimProcessingSignatures_def)

lemma console_trim [simp]: "console (trimProcessingSignatures s) = console s"
  by (simp add: trimProcessingSignatures_def)

lemma sent_trim [simp]: "sent (trimProcessingSignatures s) = sent s"
  by (simp add: trimProcessingSignatures_def)

lemma fills_trim [simp]: "fills (trimProcessingSignatures s) = fills s"
  by (simp add: trimProcessingSignatures_def)

lemma ended_trim [simp]: "ended (trimProcessingSignatures s) = ended s"
  by (simp add: trimProcessingSignatures_def)

lemma wssClosed_trim [simp]: "wssClosed (trimProcessingSignatures s) = wssClosed s"
  by (simp add: trimProcessingSignatures_def)

section \<open>What handleSignature leaves alone\<close>

lemma handled_append: "handled (xs @ ys) = handled xs @ handled ys"
  by (induction xs rule: handled.induct) simp_all

lemma untouched_refl: "untouched s s"
  by (simp add: untouched_def)

lemma untouched_trans: "untouched s s' \<Longrightarrow> untouched s' s'' \<Longrightarrow> untouched s s''"
  by (simp add: untouched_def)

lemma handleEntry_untouched: "untouched s (state_of (handleEntry sdk sg entry s))"
  by (simp add: handleEntry_def untouched_def Let_def split: sum.splits)

lemma handleEntry_handled:
  "handled (console (state_of (handleEntry sdk sg entry s))) = handled (console s)"
  by (simp add: handleEntry_def Let_def handled_append split: sum.splits)

lemma handleEntries_untouched: "untouched s (state_of (handleEntries sdk sg entries s))"
proof (induction entries arbitrary: s)
  case Nil
  show ?case by (simp add: untouched_refl)
next
  case (Cons entry entries)
  show ?case
  proof (cases "handleEntry sdk sg entry s")
    case (Returned s')
    with handleEntry_untouched [of s sdk sg entry] have "untouched s s'" by simp
    with Cons.IH [of s'] Returned show ?thesis
      by (simp add: untouched_trans)
  next
    case (Threw e s')
    with handleEntry_untouched [of s sdk sg entry] show ?thesis by simp
  qed
qed

lemma handleEntries_handled:
  "handled (console (state_of (handleEntries sdk sg entries s))) = handled (console s)"
proof (induction entries arbitrary: s)
  case Nil
  show ?case by simp
next
  case (Cons entry entries)
  show ?case
  proof (cases "handleEntry sdk sg entry s")
    case (Returned s')
    with handleEntry_handled [of sdk sg entry s] Cons.IH [of s'] show ?thesis by simp
  next
    case (Threw e s')
    with handleEntry_handled [of sdk sg entry s] show ?thesis by simp
  qed
qed

lemma handleSignature_untouched: "untouched s (state_of (handleSignature sdk conn sg s))"
proof -
  let ?s = "s\<lparr> console := console s @ [Handling (signature sg) (slot sg)] \<rparr>"
  have a: "untouched s ?s" by (simp add: untouched_def)
  have b: "untouched s (state_of (handleEntries sdk sg entries ?s))" for entries
    using a handleEntries_untouched [of ?s sdk sg entries] by (rule untouched_trans)
  show ?thesis
    using b by (simp add: handleSignature_def Let_def untouched_def split: sum.splits option.splits)
qed

lemma handleSignature_handled:
  "handled (console (state_of (handleSignature sdk conn sg s)))
     = handled (console s) @ [signature sg]"
  by (simp add: handleSignature_def Let_def handled_append handleEntries_handled
      split: sum.splits option.splits)

lemma handleSignature_skips:
  assumes "getTransaction conn (signature sg) = Inr tx"
    and "tx_logMessages tx = None \<or> tx_logMessages tx = Some [] \<or> tx_err tx \<noteq> None"
  shows "\<exists>s'. handleSignature sdk conn sg s = Returned s' \<and> sent s' = sent s \<and> fills s' = fills s"
  using assms by (auto simp: handleSignature_def Let_def split: option.splits)

section \<open>A pass over one batch\<close>

text \<open>
  A pass that returns has entered \<^verbatim>\<open>handleSignature\<close> once for every entry of the batch,
  in order, that is not in the set as the pass begins and whose slot is not below the
  cursor: an entry that occurs twice is handled twice, since the set is back to what it
  was after each entry.
\<close>

lemma processSignatures_Returned:
  "processSignatures sdk conn lastSlt batch s = Returned s' \<Longrightarrow>
     untouched s s'
     \<and> handled (console s') = handled (console s) @
          map signature (filter (\<lambda>sg. signature sg \<notin> set (processingSignatures s) \<and> \<not> slot sg < lastSlt) batch)"
proof (induction batch arbitrary: s)
  case Nil
  then show ?case by (simp add: untouched_refl)
next
  case (Cons sg rest)
  show ?case
  proof (cases "signature sg \<in> set (processingSignatures s) \<or> slot sg < lastSlt")
    case True
    with Cons.prems have "processSignatures sdk conn lastSlt rest s = Returned s'"
      by (auto simp: Set_has_def split: if_splits)
    from Cons.IH [OF this] True show ?thesis by auto
  next
    case False
    let ?s1 = "s\<lparr> processingSignatures := Set_add (processingSignatures s) (signature sg) \<rparr>"
    from False Cons.prems obtain s2 where h: "handleSignature sdk conn sg ?s1 = Returned s2"
      and r: "processSignatures sdk conn lastSlt rest
                (s2\<lparr> processingSignatures := Set_delete (processingSignatures s2) (signature sg) \<rparr>)
              = Returned s'"
      by (auto simp: Set_has_def split: outcome.splits)
    let ?s3 = "s2\<lparr> processingSignatures := Set_delete (processingSignatures s2) (signature sg) \<rparr>"
    from handleSignature_untouched [of ?s1 sdk conn sg] h have u: "untouched ?s1 s2" by simp
    with False have p: "processingSignatures ?s3 = processingSignatures s"
      by (simp add: untouched_def Set_delete_Set_add)
    with u have u3: "untouched s ?s3" by (simp add: untouched_def)
    from handleSignature_handled [of sdk conn sg ?s1] h
    have c: "handled (console ?s3) = handled (console s) @ [signature sg]" by simp
    from Cons.IH [OF r] have "untouched ?s3 s'"
      and "handled (console s') = handled (console ?s3) @
          map signature (filter (\<lambda>sg. signature sg \<notin> set (processingSignatures ?s3) \<and> \<not> slot sg < lastSlt) rest)"
      by simp_all
    with u3 c p False show ?thesis
      by (auto intro: untouched_trans)
  qed
qed

lemma processSignatures_append:
  "processSignatures sdk conn lastSlt (pre @ post) s =
     (case processSignatures sdk conn lastSlt pre s of
        Threw e s' \<Rightarrow> Threw e s'
      | Returned s' \<Rightarrow> processSignatures sdk conn lastSlt post s')"
  by (induction pre arbitrary: s) (simp_all split: outcome.splits)

lemma processSignatures_all_skipped:
  assumes "\<forall>sg\<in>set batch. \<exists>tx. getTransaction conn (signature sg) = Inr tx
             \<and> (tx_logMessages tx = None \<or> tx_logMessages tx = Some [] \<or> tx_err tx \<noteq> None)"
  shows "\<exists>s'. processSignatures sdk conn lastSlt batch s = Returned s'
           \<and> sent s' = sent s \<and> fills s' = fills s"
  using assms
proof (induction batch arbitrary: s)
  case Nil
  show ?case by simp
next
  case (Cons sg rest)
  let ?s1 = "s\<lparr> processingSignatures := Set_add (processingSignatures s) (signature sg) \<rparr>"
  from Cons.prems obtain tx where "getTransaction conn (signature sg) = Inr tx"
    and "tx_logMessages tx = None \<or> tx_logMessages tx = Some [] \<or> tx_err tx \<noteq> None"
    by auto
  then obtain s2 where h: "handleSignature sdk conn sg ?s1 = Returned s2"
    and k: "sent s2 = sent s" "fills s2 = fills s"
    using handleSignature_skips [of conn sg tx sdk ?s1] by auto
  let ?s3 = "s2\<lparr> processingSignatures := Set_delete (processingSignatures s2) (signature sg) \<rparr>"
  from Cons.prems have rest: "\<forall>sg\<in>set rest. \<exists>tx. getTransaction conn (signature sg) = Inr tx
             \<and> (tx_logMessages tx = None \<or> tx_logMessages tx = Some [] \<or> tx_err tx \<noteq> None)"
    by simp
  from Cons.IH [OF rest, of s] obtain sa where
    a: "processSignatures sdk conn lastSlt rest s = Returned sa" "sent sa = sent s" "fills sa = fills s"
    by blast
  from Cons.IH [OF rest, of ?s3] k obtain sb where
    b: "processSignatures sdk conn lastSlt rest ?s3 = Returned sb" "sent sb = sent s" "fills sb = fills s"
    by auto
  from a b h show ?case by simp
qed

lemma processSignatures_keeps:
  "ended (state_of (processSignatures sdk conn lastSlt batch s)) = ended s
   \<and> wssClosed (state_of (processSignatures sdk conn lastSlt batch s)) = wssClosed s"
proof (induction batch arbitrary: s)
  case Nil
  show ?case by simp
next
  case (Cons sg rest)
  let ?s1 = "s\<lparr> processingSignatures := Set_add (processingSignatures s) (signature sg) \<rparr>"
  show ?case
  proof (cases "handleSignature sdk conn sg ?s1")
    case (Returned s2)
    with handleSignature_untouched [of ?s1 sdk conn sg]
    have "ended s2 = ended s" "wssClosed s2 = wssClosed s"
      by (simp_all add: untouched_def)
    with Returned Cons.IH [of s]
      Cons.IH [of "s2\<lparr> processingSignatures := Set_delete (processingSignatures s2) (signature sg) \<rparr>"]
    show ?thesis by simp
  next
    case (Threw e s2)
    with handleSignature_untouched [of ?s1 sdk conn sg]
    have "ended s2 = ended s" "wssClosed s2 = wssClosed s"
      by (simp_all add: untouched_def)
    with Threw Cons.IH [of s] show ?thesis by simp
  qed
qed


lemma pollOnce_empty:
  "getSignaturesForAddress conn k (Until (lastSignature c)) = Inr [] \<Longrightarrow>
     pollOnce sdk conn k now c s = Returned (c, s)"
  by (simp add: pollOnce_def)

lemma pollOnce_nonempty:
  assumes "getSignaturesForAddress conn k (Until (lastSignature c)) = Inr listed"
    and "listed \<noteq> []"
  shows "pollOnce sdk conn k now c s =
     (case processSignatures sdk conn (lastSlot c) (rev listed) s of
        Threw e s1 \<Rightarrow> Threw e (c, s1)
      | Returned s1 \<Rightarrow>
          Returned (\<lparr> lastSignature = Some (signature (hd listed)), lastSlot = slot (hd listed) \<rparr>,
            trimProcessingSignatures
              (s1\<lparr> console := console s1 @
                        [NewLastSignature (signature (hd listed)) (slot (hd listed)) (length listed)],
                    lastUpdateUnix := now \<rparr>)))"
proof -
  from assms(2) have "last (rev listed) = hd listed"
    by (simp add: last_rev)
  with assms show ?thesis
    by (simp add: pollOnce_def Let_def split: outcome.splits)
qed

lemma pollOnce_keeps:
  "ended (snd (state_of (pollOnce sdk conn k now c s))) = ended s
   \<and> wssClosed (snd (state_of (pollOnce sdk conn k now c s))) = wssClosed s"
proof (cases "getSignaturesForAddress conn k (Until (lastSignature c))")
  case (Inl e)
  then show ?thesis by (simp add: pollOnce_def)
next
  case (Inr listed)
  show ?thesis
  proof (cases "listed = []")
    case True
    with Inr show ?thesis by (simp add: pollOnce_empty)
  next
    case False
    show ?thesis
    proof (cases "processSignatures sdk conn (lastSlot c) (rev listed) s")
      case (Returned s1)
      with processSignatures_keeps [of sdk conn "lastSlot c" "rev listed" s] Inr False
      show ?thesis by (simp add: pollOnce_nonempty)
    next
      case (Threw e s1)
      with processSignatures_keeps [of sdk conn "lastSlot c" "rev listed" s] Inr False
      show ?thesis by (simp add: pollOnce_nonempty)
    qed
  qed
qed

lemma pollLoop_turn:
  assumes "\<not> shouldEnd s" and "\<not> stopRequested t" and "clockAtTest t < endTime"
  shows "pollLoop sdk conn endTime k (t # ts) c s =
     (case pollOnce sdk conn k (clockAfterBatch t) c s of
        Threw e (c', s') \<Rightarrow> Raised e s'
      | Returned (c', s') \<Rightarrow> pollLoop sdk conn endTime (Suc k) ts c' s')"
proof -
  have e: "s\<lparr> shouldEnd := shouldEnd s \<or> stopRequested t \<rparr> = s"
    using assms by (cases s) simp
  show ?thesis
    unfolding pollLoop.simps Let_def e using assms by simp
qed

lemma pollLoop_Raised_keeps:
  "pollLoop sdk conn endTime k ticks c s = Raised e s' \<Longrightarrow>
     ended s' = ended s \<and> wssClosed s' = wssClosed s"
proof (induction ticks arbitrary: k c s)
  case Nil
  then show ?case by simp
next
  case (Cons t ts)
  let ?s1 = "s\<lparr> shouldEnd := shouldEnd s \<or> stopRequested t \<rparr>"
  from Cons.prems have go: "\<not> shouldEnd ?s1 \<and> clockAtTest t < endTime"
    by (auto simp: Let_def split: if_splits)
  show ?case
  proof (cases "pollOnce sdk conn k (clockAfterBatch t) c ?s1")
    case (Returned cs)
    obtain c2 s2 where cs: "cs = (c2, s2)" by (cases cs)
    with Returned pollOnce_keeps [of sdk conn k "clockAfterBatch t" c ?s1]
    have same: "ended s2 = ended s" "wssClosed s2 = wssClosed s" by simp_all
    from Cons.prems go Returned cs have "pollLoop sdk conn endTime (Suc k) ts c2 s2 = Raised e s'"
      by (simp add: Let_def)
    from Cons.IH [OF this] same show ?thesis by simp
  next
    case (Threw e2 cs)
    obtain c2 s2 where cs: "cs = (c2, s2)" by (cases cs)
    with Threw pollOnce_keeps [of sdk conn k "clockAfterBatch t" c ?s1]
    have same: "ended s2 = ended s" "wssClosed s2 = wssClosed s" by simp_all
    from Cons.prems go Threw cs have "s' = s2" by (simp add: Let_def)
    with same show ?thesis by simp
  qed
qed

lemma parseLogs_Raised_keeps:
  "parseLogs sdk conn endEarly start ticks s = Raised e s' \<Longrightarrow>
     ended s' = ended s \<and> wssClosed s' = wssClosed s"
  by (auto simp: parseLogs_def Let_def split: sum.splits option.splits dest: pollLoop_Raised_keeps)

lemmas run_defs =
  pollOnce_def FillFeed_new_def handleSignature_def tx_logMessages_def tx_err_def
  Set_has_def Set_add_def Set_delete_def trimProcessingSignatures_def



section \<open>Duplicates within a batch\<close>

text \<open>
  Claim C1 says that a signature occurring twice in one batch is handled at most once.
  The code removes a signature from the set as soon as it has been handled, so the
  second occurrence is not found there. On the listing \<open>[X, X]\<close> (slot 5, cursor at slot
  5, empty set) one pass enters \<^verbatim>\<open>handleSignature\<close> for \<open>X\<close> twice and fetches its
  transaction twice.
\<close>

theorem duplicate_signature_handled_twice:
  "pollOnce sdk_none conn_twice 1 50 \<lparr> lastSignature = Some ''A'', lastSlot = 5 \<rparr> (FillFeed_new 0)
     = Returned (\<lparr> lastSignature = Some ''X'', lastSlot = 5 \<rparr>,
         (FillFeed_new 0)\<lparr> console := [Handling ''X'' 5, NoLogMessages, Handling ''X'' 5, NoLogMessages,
                                        NewLastSignature ''X'' 5 2],
                            lastUpdateUnix := 50 \<rparr>)"
  by (simp add: run_defs conn_twice_def)

section \<open>The cursor\<close>

text \<open>
  Claim C2 says that a signature below the cursor's slot is skipped and that the
  cursor's slot never decreases. The first half holds
  (\<open>processSignatures_Returned\<close>); the second does not: the cursor is set to the last
  entry of the batch whether or not that entry was skipped. With the cursor at slot 5 and
  the listing \<open>[O]\<close> at slot 3, \<open>O\<close> is skipped (no \<open>Handling\<close> line) and the cursor's
  slot becomes 3.
\<close>

theorem cursor_regresses_to_skipped_signature:
  "pollOnce sdk_none conn_older 1 50 \<lparr> lastSignature = Some ''A'', lastSlot = 5 \<rparr> (FillFeed_new 0)
     = Returned (\<lparr> lastSignature = Some ''O'', lastSlot = 3 \<rparr>,
         (FillFeed_new 0)\<lparr> console := [NewLastSignature ''O'' 3 1], lastUpdateUnix := 50 \<rparr>)"
  by (simp add: run_defs conn_older_def)

text \<open>
  Claim C3 says that after a non-empty batch the cursor is the last signature processed.
  The code sets it to the last entry of the batch, processed or not. With the cursor at
  slot 5 and the listing \<open>[O, B]\<close> at slots 3 and 8, the pass handles \<open>B\<close>, skips \<open>O\<close> and
  leaves the cursor at \<open>O\<close>, slot 3, a signature that was never handled; the liveness
  timestamp is set to the clock.
\<close>

theorem cursor_set_to_skipped_signature_after_handling_newer:
  "pollOnce sdk_none conn_mixed 1 50 \<lparr> lastSignature = Some ''A'', lastSlot = 5 \<rparr> (FillFeed_new 0)
     = Returned (\<lparr> lastSignature = Some ''O'', lastSlot = 3 \<rparr>,
         (FillFeed_new 0)\<lparr> console := [Handling ''B'' 8, NoLogMessages, NewLastSignature ''O'' 3 2],
                            lastUpdateUnix := 50 \<rparr>)"
  by (simp add: run_defs conn_mixed_def)

section \<open>Transactions that are skipped\<close>

text \<open>
  Claim C4. When the transaction of a signature is unavailable, has no log messages
  (none at all, or an empty list) or records an error, \<^verbatim>\<open>handleSignature\<close> returns
  without throwing, sends nothing to the subscribers and counts no fill. A batch made of
  such signatures is passed without a throw and leaves the cursor at its newest
  signature; and whenever a pass over a non-empty batch returns, the cursor is at the
  newest signature of that batch.
\<close>

theorem skipped_transaction_sends_nothing:
  "(getTransaction conn (signature sg) = Inr tx
      \<and> (tx_logMessages tx = None \<or> tx_logMessages tx = Some [] \<or> tx_err tx \<noteq> None) \<longrightarrow>
    (\<exists>s'. handleSignature sdk conn sg s = Returned s' \<and> sent s' = sent s \<and> fills s' = fills s))
   \<and> (getSignaturesForAddress conn k (Until (lastSignature c)) = Inr listed \<and> listed \<noteq> []
       \<and> (\<forall>r\<in>set listed. \<exists>tx. getTransaction conn (signature r) = Inr tx
             \<and> (tx_logMessages tx = None \<or> tx_logMessages tx = Some [] \<or> tx_err tx \<noteq> None)) \<longrightarrow>
    (\<exists>s'. pollOnce sdk conn k now c s
             = Returned (\<lparr> lastSignature = Some (signature (hd listed)),
                            lastSlot = slot (hd listed) \<rparr>, s')
           \<and> sent s' = sent s \<and> fills s' = fills s))
   \<and> (getSignaturesForAddress conn k (Until (lastSignature c)) = Inr listed \<and> listed \<noteq> []
       \<and> pollOnce sdk conn k now c s = Returned (c', s') \<longrightarrow>
      c' = \<lparr> lastSignature = Some (signature (hd listed)), lastSlot = slot (hd listed) \<rparr>)"
proof (intro conjI impI)
  assume "getTransaction conn (signature sg) = Inr tx
      \<and> (tx_logMessages tx = None \<or> tx_logMessages tx = Some [] \<or> tx_err tx \<noteq> None)"
  then show "\<exists>s'. handleSignature sdk conn sg s = Returned s' \<and> sent s' = sent s \<and> fills s' = fills s"
    using handleSignature_skips by blast
next
  assume a: "getSignaturesForAddress conn k (Until (lastSignature c)) = Inr listed \<and> listed \<noteq> []
       \<and> (\<forall>r\<in>set listed. \<exists>tx. getTransaction conn (signature r) = Inr tx
             \<and> (tx_logMessages tx = None \<or> tx_logMessages tx = Some [] \<or> tx_err tx \<noteq> None))"
  then have "\<forall>r\<in>set (rev listed). \<exists>tx. getTransaction conn (signature r) = Inr tx
             \<and> (tx_logMessages tx = None \<or> tx_logMessages tx = Some [] \<or> tx_err tx \<noteq> None)"
    by simp
  from processSignatures_all_skipped [OF this, of sdk "lastSlot c" s]
  obtain s1 where "processSignatures sdk conn (lastSlot c) (rev listed) s = Returned s1"
    and "sent s1 = sent s" and "fills s1 = fills s"
    by blast
  with a show "\<exists>s'. pollOnce sdk conn k now c s
             = Returned (\<lparr> lastSignature = Some (signature (hd listed)),
                            lastSlot = slot (hd listed) \<rparr>, s')
           \<and> sent s' = sent s \<and> fills s' = fills s"
    by (simp add: pollOnce_nonempty)
next
  assume "getSignaturesForAddress conn k (Until (lastSignature c)) = Inr listed \<and> listed \<noteq> []
       \<and> pollOnce sdk conn k now c s = Returned (c', s')"
  then show "c' = \<lparr> lastSignature = Some (signature (hd listed)), lastSlot = slot (hd listed) \<rparr>"
    by (auto simp: pollOnce_nonempty split: outcome.splits)
qed

theorem skipped_transaction_sends_nothing_witness:
  "(\<exists>s'. handleSignature sdk_none conn_failed \<lparr> signature = ''F'', slot = 9 \<rparr> (FillFeed_new 0)
            = Returned s' \<and> sent s' = [] \<and> fills s' = [])
   \<and> (\<exists>s'. pollOnce sdk_none conn_failed 1 50 cursor_A (FillFeed_new 0)
            = Returned (\<lparr> lastSignature = Some ''F'', lastSlot = 9 \<rparr>, s')
          \<and> sent s' = [] \<and> fills s' = [])"
proof -
  have g: "getTransaction conn_failed (signature \<lparr> signature = ''F'', slot = 9 \<rparr>) = Inr tx_failed
      \<and> (tx_logMessages tx_failed = None \<or> tx_logMessages tx_failed = Some []
          \<or> tx_err tx_failed \<noteq> None)"
    by (simp add: conn_failed_def tx_failed_def tx_err_def)
  have l: "getSignaturesForAddress conn_failed 1 (Until (lastSignature cursor_A))
             = Inr [\<lparr> signature = ''F'', slot = 9 \<rparr>] \<and> [\<lparr> signature = ''F'', slot = 9 \<rparr>] \<noteq> []
       \<and> (\<forall>r\<in>set [\<lparr> signature = ''F'', slot = 9 \<rparr>]. \<exists>tx. getTransaction conn_failed (signature r) = Inr tx
             \<and> (tx_logMessages tx = None \<or> tx_logMessages tx = Some [] \<or> tx_err tx \<noteq> None))"
    by (simp add: conn_failed_def tx_failed_def tx_err_def)
  have s: "sent (FillFeed_new 0) = [] \<and> fills (FillFeed_new 0) = []"
    by (simp add: FillFeed_new_def)
  note t = skipped_transaction_sends_nothing [of conn_failed "\<lparr> signature = ''F'', slot = 9 \<rparr>"
      tx_failed sdk_none "FillFeed_new 0" 1 cursor_A "[\<lparr> signature = ''F'', slot = 9 \<rparr>]" 50]
  from t g s have "\<exists>s'. handleSignature sdk_none conn_failed \<lparr> signature = ''F'', slot = 9 \<rparr> (FillFeed_new 0)
            = Returned s' \<and> sent s' = [] \<and> fills s' = []"
    by simp
  moreover from t l s have "\<exists>s'. pollOnce sdk_none conn_failed 1 50 cursor_A (FillFeed_new 0)
            = Returned (\<lparr> lastSignature = Some ''F'', lastSlot = 9 \<rparr>, s')
          \<and> sent s' = [] \<and> fills s' = []"
    by simp
  ultimately show ?thesis by blast
qed

section \<open>The trim of the set of signatures in flight\<close>



section \<open>Stopping\<close>

lemma toString_30: "toString 30 = ''30''"
  by code_simp

lemma shutdownTimeout_message:
  "shutdownTimeout = Error ''failed to stop parseLogs after 30 seconds''"
proof -
  have "nat (TIMEOUT div 1000) = 30"
    by (simp add: TIMEOUT_def)
  then show ?thesis
    by (simp add: shutdownTimeout_def toString_30)
qed

lemma seenBy_append: "seenBy (xs @ ys) s = seenBy ys (seenBy xs s)"
  by (induction xs s rule: seenBy.induct) simp_all

lemma seenBy_idle: "\<forall>p\<in>set polls. snd p = id \<Longrightarrow> seenBy polls s = s"
  by (induction polls s rule: seenBy.induct) simp_all

lemma awaitEnded_goes_on:
  assumes "\<forall>i<length before. \<not> ended (seenBy (take (Suc i) before) s)
             \<and> fst (before ! i) - start \<le> TIMEOUT"
  shows "awaitEnded start (before @ rest) s = awaitEnded start rest (seenBy before s)"
  using assms
proof (induction before arbitrary: s)
  case Nil
  show ?case by simp
next
  case (Cons p before)
  obtain now loopDid where p: "p = (now, loopDid)" by (cases p)
  from Cons.prems [rule_format, of 0] p
  have first: "\<not> ended (loopDid s)" "now - start \<le> TIMEOUT" by simp_all
  have "\<forall>i<length before. \<not> ended (seenBy (take (Suc i) before) (loopDid s))
             \<and> fst (before ! i) - start \<le> TIMEOUT"
  proof (intro allI impI)
    fix i assume "i < length before"
    with Cons.prems [rule_format, of "Suc i"] p
    show "\<not> ended (seenBy (take (Suc i) before) (loopDid s)) \<and> fst (before ! i) - start \<le> TIMEOUT"
      by simp
  qed
  from Cons.IH [OF this] first p show ?case by simp
qed

lemma awaitEnded_idle:
  assumes "\<not> ended s" and "\<forall>p\<in>set polls. snd p = id"
  shows "awaitEnded start polls s =
     (if \<exists>p\<in>set polls. fst p - start > TIMEOUT then Rejected shutdownTimeout s else Waiting s)"
  using assms
proof (induction polls)
  case Nil
  show ?case by simp
next
  case (Cons p polls)
  obtain now loopDid where p: "p = (now, loopDid)" by (cases p)
  with Cons.prems have "loopDid s = s" by simp
  with Cons p show ?case by auto
qed

lemma pollLoop_stops:
  "shouldEnd s \<Longrightarrow> pollLoop sdk conn endTime k (t # ts) c s
     = Ended (s\<lparr> console := console s @ [EndedLoop], wssClosed := True, ended := True \<rparr>)"
proof -
  assume a: "shouldEnd s"
  then have e: "s\<lparr> shouldEnd := shouldEnd s \<or> stopRequested t \<rparr> = s"
    by (cases s) simp
  show ?thesis
    unfolding pollLoop.simps Let_def e using a by simp
qed

text \<open>
  Claim C6 says that a timed-out \<^verbatim>\<open>stopParseLogs\<close> leaves the state of the loop unchanged
  and that it fails when the loop has not stopped within the timeout. On a feed whose
  stop flag is down, a poll at 30001 ms rejects and leaves the flag raised, so the state
  is not the one at entry, and the loop ends and closes the server at its next test. And
  when a poll at 29900 ms finds the loop running and the next one, at 30400 ms, finds it
  ended, the operation resolves although more than the timeout has passed.
\<close>

theorem stopParseLogs_state_unchanged_counterexample:
  "stopParseLogs 0 [(30001, id)] (FillFeed_new 0)
     = Rejected (Error ''failed to stop parseLogs after 30 seconds'')
         ((FillFeed_new 0)\<lparr> shouldEnd := True \<rparr>)
   \<and> (FillFeed_new 0)\<lparr> shouldEnd := True \<rparr> \<noteq> FillFeed_new 0
   \<and> pollLoop sdk_none conn_one 100 1 [tick_running] cursor_A ((FillFeed_new 0)\<lparr> shouldEnd := True \<rparr>)
     = Ended (loop_ends ((FillFeed_new 0)\<lparr> shouldEnd := True \<rparr>))
   \<and> stopParseLogs 0 [(29900, id), (30400, loop_ends)] (FillFeed_new 0)
     = Resolved (loop_ends ((FillFeed_new 0)\<lparr> shouldEnd := True \<rparr>))"
  by (simp add: stopParseLogs_def shutdownTimeout_message TIMEOUT_def FillFeed_new_def loop_ends_def
      tick_running_def)

text \<open>
  Claim C6, amended. \<^verbatim>\<open>stopParseLogs\<close> raises the stop flag and then polls. As long as
  the polls find the loop running no later than the timeout after the start, it keeps
  waiting. At the first poll that finds \<open>ended\<close> set it resolves, whatever the clock reads
  then; at the first poll that finds the loop still running more than the timeout after
  the start it rejects with the shutdown-timeout error. In both cases the state is what
  the loop made of the state at entry with the flag raised: when the loop did nothing it
  is the state at entry with the flag raised, on which the loop ends, closes the server
  and sets \<open>ended\<close> at its next test.
\<close>

theorem stopParseLogs_resolves_or_times_out:
  assumes "\<forall>i<length before. \<not> ended (seenBy (take (Suc i) before) (s\<lparr> shouldEnd := True \<rparr>))
             \<and> fst (before ! i) - start \<le> TIMEOUT"
  shows "(ended (seenBy (before @ [(now, loopDid)]) (s\<lparr> shouldEnd := True \<rparr>)) \<longrightarrow>
            stopParseLogs start (before @ (now, loopDid) # later) s
              = Resolved (seenBy (before @ [(now, loopDid)]) (s\<lparr> shouldEnd := True \<rparr>)))
    \<and> (\<not> ended (seenBy (before @ [(now, loopDid)]) (s\<lparr> shouldEnd := True \<rparr>))
         \<and> now - start > TIMEOUT \<longrightarrow>
            stopParseLogs start (before @ (now, loopDid) # later) s
              = Rejected (Error ''failed to stop parseLogs after 30 seconds'')
                  (seenBy (before @ [(now, loopDid)]) (s\<lparr> shouldEnd := True \<rparr>)))
    \<and> ((\<forall>p\<in>set (before @ [(now, loopDid)]). snd p = id) \<longrightarrow>
          seenBy (before @ [(now, loopDid)]) (s\<lparr> shouldEnd := True \<rparr>) = s\<lparr> shouldEnd := True \<rparr>
          \<and> pollLoop sdk conn endTime k (t # ts) c (s\<lparr> shouldEnd := True \<rparr>)
              = Ended (s\<lparr> shouldEnd := True, console := console s @ [EndedLoop],
                          wssClosed := True, ended := True \<rparr>))"
proof -
  let ?s1 = "s\<lparr> shouldEnd := True \<rparr>"
  have w: "stopParseLogs start (before @ (now, loopDid) # later) s
             = awaitEnded start ((now, loopDid) # later) (seenBy before ?s1)"
    unfolding stopParseLogs_def using assms by (rule awaitEnded_goes_on)
  have e: "seenBy (before @ [(now, loopDid)]) ?s1 = loopDid (seenBy before ?s1)"
    by (simp add: seenBy_append)
  have l: "pollLoop sdk conn endTime k (t # ts) c ?s1
              = Ended (s\<lparr> shouldEnd := True, console := console s @ [EndedLoop],
                          wssClosed := True, ended := True \<rparr>)"
    using pollLoop_stops [of ?s1 sdk conn endTime k t ts c] by simp
  show ?thesis
  proof (intro conjI impI)
    assume "ended (seenBy (before @ [(now, loopDid)]) ?s1)"
    with w e show "stopParseLogs start (before @ (now, loopDid) # later) s
              = Resolved (seenBy (before @ [(now, loopDid)]) ?s1)"
      by simp
  next
    assume "\<not> ended (seenBy (before @ [(now, loopDid)]) ?s1) \<and> now - start > TIMEOUT"
    with w e show "stopParseLogs start (before @ (now, loopDid) # later) s
              = Rejected (Error ''failed to stop parseLogs after 30 seconds'')
                  (seenBy (before @ [(now, loopDid)]) ?s1)"
      by (simp add: shutdownTimeout_message)
  next
    assume "\<forall>p\<in>set (before @ [(now, loopDid)]). snd p = id"
    then show "seenBy (before @ [(now, loopDid)]) ?s1 = ?s1"
      by (rule seenBy_idle)
  next
    show "pollLoop sdk conn endTime k (t # ts) c ?s1
              = Ended (s\<lparr> shouldEnd := True, console := console s @ [EndedLoop],
                          wssClosed := True, ended := True \<rparr>)"
      by (rule l)
  qed
qed

theorem stopParseLogs_resolves_or_times_out_witness:
  "stopParseLogs 0 [(500, id), (1000, loop_ends), (1500, id)] (FillFeed_new 0)
     = Resolved (loop_ends ((FillFeed_new 0)\<lparr> shouldEnd := True \<rparr>))
   \<and> stopParseLogs 0 [(500, id), (30500, loop_ends)] (FillFeed_new 0)
     = Resolved (loop_ends ((FillFeed_new 0)\<lparr> shouldEnd := True \<rparr>))
   \<and> stopParseLogs 0 [(500, id), (30500, id), (31000, id)] (FillFeed_new 0)
     = Rejected (Error ''failed to stop parseLogs after 30 seconds'')
         ((FillFeed_new 0)\<lparr> shouldEnd := True \<rparr>)
   \<and> pollLoop sdk_none conn_one 100 1 [tick_running] cursor_A ((FillFeed_new 0)\<lparr> shouldEnd := True \<rparr>)
     = Ended ((FillFeed_new 0)\<lparr> shouldEnd := True, console := [EndedLoop],
                                wssClosed := True, ended := True \<rparr>)"
proof -
  have b: "\<forall>i<length [(500::int, id :: FillFeed \<Rightarrow> FillFeed)].
             \<not> ended (seenBy (take (Suc i) [(500, id)]) ((FillFeed_new 0)\<lparr> shouldEnd := True \<rparr>))
             \<and> fst ([(500, id)] ! i) - 0 \<le> TIMEOUT"
    by (simp add: FillFeed_new_def TIMEOUT_def)
  note t1 = stopParseLogs_resolves_or_times_out [OF b, where now = 1000 and loopDid = loop_ends
      and later = "[(1500, id)]"]
  note t2 = stopParseLogs_resolves_or_times_out [OF b, where now = 30500 and loopDid = loop_ends
      and later = "[]"]
  note t3 = stopParseLogs_resolves_or_times_out [OF b, where now = 30500 and loopDid = id
      and later = "[(31000, id)]" and sdk = sdk_none and conn = conn_one and endTime = 100
      and k = 1 and t = tick_running and ts = "[]" and c = cursor_A]
  have r1: "ended (seenBy ([(500, id)] @ [(1000, loop_ends)]) ((FillFeed_new 0)\<lparr> shouldEnd := True \<rparr>))"
    by (simp add: loop_ends_def)
  have r2: "ended (seenBy ([(500, id)] @ [(30500, loop_ends)]) ((FillFeed_new 0)\<lparr> shouldEnd := True \<rparr>))"
    by (simp add: loop_ends_def)
  have n: "\<not> ended (seenBy ([(500, id)] @ [(30500, id)]) ((FillFeed_new 0)\<lparr> shouldEnd := True \<rparr>))
           \<and> 30500 - 0 > TIMEOUT"
    by (simp add: FillFeed_new_def TIMEOUT_def)
  have i: "\<forall>p\<in>set ([(500::int, id :: FillFeed \<Rightarrow> FillFeed)] @ [(30500, id)]). snd p = id"
    by simp
  have c: "console (FillFeed_new 0) = []"
    by (simp add: FillFeed_new_def)
  from t1 r1 have "stopParseLogs 0 [(500, id), (1000, loop_ends), (1500, id)] (FillFeed_new 0)
     = Resolved (loop_ends ((FillFeed_new 0)\<lparr> shouldEnd := True \<rparr>))"
    by simp
  moreover from t2 r2 have "stopParseLogs 0 [(500, id), (30500, loop_ends)] (FillFeed_new 0)
     = Resolved (loop_ends ((FillFeed_new 0)\<lparr> shouldEnd := True \<rparr>))"
    by simp
  moreover from t3 n i have "stopParseLogs 0 [(500, id), (30500, id), (31000, id)] (FillFeed_new 0)
     = Rejected (Error ''failed to stop parseLogs after 30 seconds'')
         ((FillFeed_new 0)\<lparr> shouldEnd := True \<rparr>)"
    by simp
  moreover from t3 i c have "pollLoop sdk_none conn_one 100 1 [tick_running] cursor_A
       ((FillFeed_new 0)\<lparr> shouldEnd := True \<rparr>)
     = Ended ((FillFeed_new 0)\<lparr> shouldEnd := True, console := [EndedLoop],
                                wssClosed := True, ended := True \<rparr>)"
    by simp
  ultimately show ?thesis by blast
qed

section \<open>Start-up\<close>

text \<open>
  Claim C7. \<^verbatim>\<open>parseLogs\<close> begins by asking the remote source for one signature
  (\<open>Limit 1\<close>). When the answer is empty, reading the signature of its first element
  throws a \<open>TypeError\<close> that leaves \<^verbatim>\<open>parseLogs\<close>, with the state untouched; otherwise
  the first element of the answer becomes the cursor and the loop is entered.
\<close>

theorem parseLogs_without_initial_signature:
  "(getSignaturesForAddress conn 0 (Limit 1) = Inr [] \<longrightarrow>
      parseLogs sdk conn endEarly start ticks s = Raised TypeError s)
   \<and> (getSignaturesForAddress conn 0 (Limit 1) = Inr (newest # older) \<longrightarrow>
      parseLogs sdk conn endEarly start ticks s
        = pollLoop sdk conn (if endEarly then start + 30000 else start + 1000000000000) 1 ticks
            \<lparr> lastSignature = Some (signature newest), lastSlot = slot newest \<rparr> s)"
  by (simp add: parseLogs_def index_def Let_def)

theorem parseLogs_without_initial_signature_witness:
  "parseLogs sdk_none conn_empty False 0 [tick_running] (FillFeed_new 0)
     = Raised TypeError (FillFeed_new 0)
   \<and> parseLogs sdk_none conn_empty False 0 [] (FillFeed_new 0) = Raised TypeError (FillFeed_new 0)
   \<and> parseLogs sdk_none conn_one False 0 [] (FillFeed_new 0)
       = Polling \<lparr> lastSignature = Some ''B'', lastSlot = 7 \<rparr> (FillFeed_new 0)"
proof -
  have e: "getSignaturesForAddress conn_empty 0 (Limit 1) = Inr []"
    by (simp add: conn_empty_def)
  have o: "getSignaturesForAddress conn_one 0 (Limit 1) = Inr [\<lparr> signature = ''B'', slot = 7 \<rparr>]"
    by (simp add: conn_one_def)
  from parseLogs_without_initial_signature [where conn = conn_empty and sdk = sdk_none
      and endEarly = False and start = 0 and ticks = "[tick_running]" and s = "FillFeed_new 0"] e
  have "parseLogs sdk_none conn_empty False 0 [tick_running] (FillFeed_new 0)
     = Raised TypeError (FillFeed_new 0)" by blast
  moreover from parseLogs_without_initial_signature [where conn = conn_empty and sdk = sdk_none
      and endEarly = False and start = 0 and ticks = "[]" and s = "FillFeed_new 0"] e
  have "parseLogs sdk_none conn_empty False 0 [] (FillFeed_new 0) = Raised TypeError (FillFeed_new 0)"
    by blast
  moreover from parseLogs_without_initial_signature [where conn = conn_one and sdk = sdk_none
      and endEarly = False and start = 0 and ticks = "[]" and s = "FillFeed_new 0"
      and newest = "\<lparr> signature = ''B'', slot = 7 \<rparr>" and older = "[]"] o
  have "parseLogs sdk_none conn_one False 0 [] (FillFeed_new 0)
       = Polling \<lparr> lastSignature = Some ''B'', lastSlot = 7 \<rparr> (FillFeed_new 0)"
    by simp
  ultimately show ?thesis by blast
qed

section \<open>Decimal strings and the price\<close>

lemma digit_value_digit: "d < 10 \<Longrightarrow> digit_value (digit d) = d"
  by (simp add: digit_def digit_value_def)

lemma is_digit_digit: "d < 10 \<Longrightarrow> is_digit (digit d)"
  by (simp add: digit_def is_digit_def)

lemma decimal_value_snoc: "decimal_value (cs @ [c]) = 10 * decimal_value cs + digit_value c"
  by (simp add: decimal_value_def)

lemma decimal_value_toString: "decimal_value (toString n) = n"
proof (induction n rule: toString.induct)
  case (1 n)
  show ?case
  proof (cases "n < 10")
    case True
    then show ?thesis
      by (subst toString.simps) (simp add: decimal_value_def digit_value_digit)
  next
    case False
    with "1" have "decimal_value (toString (n div 10)) = n div 10" by simp
    with False show ?thesis
      by (subst toString.simps) (simp add: decimal_value_snoc digit_value_digit)
  qed
qed

lemma list_all_is_digit_toString: "list_all is_digit (toString n)"
proof (induction n rule: toString.induct)
  case (1 n)
  show ?case
  proof (cases "n < 10")
    case True
    then show ?thesis
      by (subst toString.simps) (simp add: is_digit_digit)
  next
    case False
    with "1" have "list_all is_digit (toString (n div 10))" by simp
    with False show ?thesis
      by (subst toString.simps) (simp add: is_digit_digit)
  qed
qed

lemma no_injection_u128_number: "\<not> inj (f :: 128 word \<Rightarrow> number)"
proof
  assume "inj f"
  then have "card (UNIV :: 128 word set) \<le> card (UNIV :: number set)"
    by (intro card_inj_on_le [of f]) simp_all
  then show False
    by (simp add: card_word)
qed

text \<open>
  Claim C8 says that the 128-bit price is converted without loss of precision. The
  price fields of both messages have type \<^verbatim>\<open>number\<close>, 64 bits, and there are more 128-bit
  prices than numbers: whatever \<^verbatim>\<open>convertU128\<close> does, two place-order logs with
  different prices give the same \<open>price\<close>, and two fill logs with different prices the
  same \<open>priceAtoms\<close>.
\<close>

theorem price_conversion_lossless_counterexample:
  "\<not> (\<exists>sdk. \<forall>f g. price (toPlaceOrderLogResult sdk f 0 []) = price (toPlaceOrderLogResult sdk g 0 [])
         \<longrightarrow> po_price f = po_price g)
   \<and> \<not> (\<exists>sdk. \<forall>f g. priceAtoms (toFillLogResult sdk f 0 []) = priceAtoms (toFillLogResult sdk g 0 [])
         \<longrightarrow> fl_price f = fl_price g)"
proof (intro conjI notI)
  assume "\<exists>sdk. \<forall>f g. price (toPlaceOrderLogResult sdk f 0 []) = price (toPlaceOrderLogResult sdk g 0 [])
         \<longrightarrow> po_price f = po_price g"
  then obtain sdk where l: "\<And>f g. price (toPlaceOrderLogResult sdk f 0 [])
          = price (toPlaceOrderLogResult sdk g 0 []) \<Longrightarrow> po_price f = po_price g"
    by blast
  have "inj (convertU128 sdk)"
  proof (rule injI)
    fix p q assume "convertU128 sdk p = convertU128 sdk q"
    then have "price (toPlaceOrderLogResult sdk (placeOrderLog_priced p) 0 [])
        = price (toPlaceOrderLogResult sdk (placeOrderLog_priced q) 0 [])"
      by (simp add: toPlaceOrderLogResult_def placeOrderLog_priced_def)
    from l [OF this] show "p = q"
      by (simp add: placeOrderLog_priced_def)
  qed
  with no_injection_u128_number show False by blast
next
  assume "\<exists>sdk. \<forall>f g. priceAtoms (toFillLogResult sdk f 0 []) = priceAtoms (toFillLogResult sdk g 0 [])
         \<longrightarrow> fl_price f = fl_price g"
  then obtain sdk where l: "\<And>f g. priceAtoms (toFillLogResult sdk f 0 [])
          = priceAtoms (toFillLogResult sdk g 0 []) \<Longrightarrow> fl_price f = fl_price g"
    by blast
  have "inj (convertU128 sdk)"
  proof (rule injI)
    fix p q assume "convertU128 sdk p = convertU128 sdk q"
    then have "priceAtoms (toFillLogResult sdk (fillLog_priced p) 0 [])
        = priceAtoms (toFillLogResult sdk (fillLog_priced q) 0 [])"
      by (simp add: toFillLogResult_def fillLog_priced_def)
    from l [OF this] show "p = q"
      by (simp add: fillLog_priced_def)
  qed
  with no_injection_u128_number show False by blast
qed

text \<open>
  Claim C8, amended. The base and quote quantities are emitted as strings of decimal
  digits whose value is the quantity; the price is emitted as the number that
  \<^verbatim>\<open>convertU128\<close> returns for the 128-bit price, and that conversion is not injective.
\<close>

theorem quantities_are_decimal_strings:
  "decimal_value (baseAtoms (toFillLogResult sdk fillLog slt sig)) = unat (fl_baseAtoms fillLog)
   \<and> list_all is_digit (baseAtoms (toFillLogResult sdk fillLog slt sig))
   \<and> decimal_value (quoteAtoms (toFillLogResult sdk fillLog slt sig)) = unat (fl_quoteAtoms fillLog)
   \<and> list_all is_digit (quoteAtoms (toFillLogResult sdk fillLog slt sig))
   \<and> decimal_value (por_baseAtoms (toPlaceOrderLogResult sdk placeOrderLog slt sig))
       = unat (po_baseAtoms placeOrderLog)
   \<and> list_all is_digit (por_baseAtoms (toPlaceOrderLogResult sdk placeOrderLog slt sig))
   \<and> priceAtoms (toFillLogResult sdk fillLog slt sig) = convertU128 sdk (fl_price fillLog)
   \<and> price (toPlaceOrderLogResult sdk placeOrderLog slt sig) = convertU128 sdk (po_price placeOrderLog)
   \<and> \<not> inj (convertU128 sdk)"
  by (simp add: toFillLogResult_def toPlaceOrderLogResult_def decimal_value_toString
      list_all_is_digit_toString no_injection_u128_number)

section \<open>An exception in handleSignature\<close>

text \<open>
  Claim C9. Suppose the signatures before \<open>sg\<close> in a batch were passed, \<open>sg\<close> is not
  skipped, and \<^verbatim>\<open>handleSignature\<close> throws for it. Then the pass over the batch throws the
  same exception, \<open>sg\<close> is still in the set in the state left behind, and the loop, and
  with it \<^verbatim>\<open>parseLogs\<close>, ends with that exception: the server is not closed and \<open>ended\<close>
  is not set (this holds of every exception that leaves \<^verbatim>\<open>parseLogs\<close>). A later
  \<^verbatim>\<open>stopParseLogs\<close>, with no loop left to set \<open>ended\<close>, never resolves, and rejects
  with the shutdown-timeout error once a poll reads a clock beyond the timeout.
\<close>

theorem thrown_signature_stays_and_loop_never_ends:
  assumes "processSignatures sdk conn lastSlt earlier s = Returned s1"
    and "signature sg \<notin> set (processingSignatures s1)"
    and "\<not> slot sg < lastSlt"
    and "handleSignature sdk conn sg
           (s1\<lparr> processingSignatures := Set_add (processingSignatures s1) (signature sg) \<rparr>)
         = Threw e s2"
  shows "processSignatures sdk conn lastSlt (earlier @ sg # later) s = Threw e s2
    \<and> signature sg \<in> set (processingSignatures s2)
    \<and> ended s2 = ended s \<and> wssClosed s2 = wssClosed s
    \<and> (getSignaturesForAddress conn k (Until (lastSignature c)) = Inr listed
         \<and> rev listed = earlier @ sg # later \<and> lastSlot c = lastSlt
         \<and> \<not> shouldEnd s \<and> \<not> stopRequested t \<and> clockAtTest t < endTime \<longrightarrow>
       pollLoop sdk conn endTime k (t # ts) c s = Raised e s2)
    \<and> (parseLogs sdk conn endEarly begun ticks s0 = Raised e' s' \<longrightarrow>
         ended s' = ended s0 \<and> wssClosed s' = wssClosed s0)
    \<and> (\<not> ended s \<and> (\<forall>p\<in>set polls. snd p = id) \<longrightarrow>
         (\<forall>r. stopParseLogs start polls s2 \<noteq> Resolved r)
         \<and> ((\<exists>p\<in>set polls. fst p - start > TIMEOUT) \<longrightarrow>
              stopParseLogs start polls s2 = Rejected shutdownTimeout (s2\<lparr> shouldEnd := True \<rparr>)))"
proof -
  let ?s1 = "s1\<lparr> processingSignatures := Set_add (processingSignatures s1) (signature sg) \<rparr>"
  from assms(1) have u1: "untouched s s1"
    using processSignatures_Returned by blast
  from handleSignature_untouched [of ?s1 sdk conn sg] assms(4) have u2: "untouched ?s1 s2"
    by simp
  have thrown: "processSignatures sdk conn lastSlt (earlier @ sg # later) s = Threw e s2"
    using assms by (simp add: processSignatures_append Set_has_def)
  from u2 have kept: "signature sg \<in> set (processingSignatures s2)"
    by (simp add: untouched_def set_Set_add)
  from u1 u2 have same: "ended s2 = ended s" "wssClosed s2 = wssClosed s"
    by (simp_all add: untouched_def)
  have raised: "pollLoop sdk conn endTime k (t # ts) c s = Raised e s2"
    if a: "getSignaturesForAddress conn k (Until (lastSignature c)) = Inr listed
         \<and> rev listed = earlier @ sg # later \<and> lastSlot c = lastSlt
         \<and> \<not> shouldEnd s \<and> \<not> stopRequested t \<and> clockAtTest t < endTime"
  proof -
    from a have "listed \<noteq> []" by auto
    with a thrown have "pollOnce sdk conn k (clockAfterBatch t) c s = Threw e (c, s2)"
      by (simp add: pollOnce_nonempty)
    moreover from a have "pollLoop sdk conn endTime k (t # ts) c s =
       (case pollOnce sdk conn k (clockAfterBatch t) c s of
          Threw e (c', s') \<Rightarrow> Raised e s'
        | Returned (c', s') \<Rightarrow> pollLoop sdk conn endTime (Suc k) ts c' s')"
      by (blast intro: pollLoop_turn)
    ultimately show ?thesis by simp
  qed
  have waits: "(\<forall>r. stopParseLogs start polls s2 \<noteq> Resolved r)
         \<and> ((\<exists>p\<in>set polls. fst p - start > TIMEOUT) \<longrightarrow>
              stopParseLogs start polls s2 = Rejected shutdownTimeout (s2\<lparr> shouldEnd := True \<rparr>))"
    if a: "\<not> ended s \<and> (\<forall>p\<in>set polls. snd p = id)"
  proof -
    from a same have "\<not> ended (s2\<lparr> shouldEnd := True \<rparr>)" by simp
    with a have "stopParseLogs start polls s2 =
       (if \<exists>p\<in>set polls. fst p - start > TIMEOUT
        then Rejected shutdownTimeout (s2\<lparr> shouldEnd := True \<rparr>)
        else Waiting (s2\<lparr> shouldEnd := True \<rparr>))"
      unfolding stopParseLogs_def by (intro awaitEnded_idle) simp_all
    then show ?thesis by simp
  qed
  from thrown kept same raised waits parseLogs_Raised_keeps [of sdk conn endEarly begun ticks s0 e' s']
  show ?thesis by blast
qed

theorem thrown_signature_stays_and_loop_never_ends_witness:
  "pollLoop sdk_none conn_throws 100 1 [tick_running] cursor_A (FillFeed_new 0)
     = Raised (Error ''429 Too Many Requests'')
         ((FillFeed_new 0)\<lparr> processingSignatures := [''T''], console := [Handling ''T'' 8] \<rparr>)
   \<and> parseLogs sdk_none conn_throws False 0 [tick_running] (FillFeed_new 0)
     = Raised (Error ''429 Too Many Requests'')
         ((FillFeed_new 0)\<lparr> processingSignatures := [''T''], console := [Handling ''T'' 8] \<rparr>)
   \<and> \<not> ended ((FillFeed_new 0)\<lparr> processingSignatures := [''T''], console := [Handling ''T'' 8] \<rparr>)
   \<and> \<not> wssClosed ((FillFeed_new 0)\<lparr> processingSignatures := [''T''], console := [Handling ''T'' 8] \<rparr>)
   \<and> stopParseLogs 0 [(500, id), (30500, id)]
        ((FillFeed_new 0)\<lparr> processingSignatures := [''T''], console := [Handling ''T'' 8] \<rparr>)
     = Rejected shutdownTimeout
        ((FillFeed_new 0)\<lparr> processingSignatures := [''T''], console := [Handling ''T'' 8],
                           shouldEnd := True \<rparr>)"
proof -
  let ?sg = "\<lparr> signature = ''T'', slot = 8 \<rparr>"
  let ?s2 = "(FillFeed_new 0)\<lparr> processingSignatures := [''T''], console := [Handling ''T'' 8] \<rparr>"
  have a1: "processSignatures sdk_none conn_throws 7 [] (FillFeed_new 0) = Returned (FillFeed_new 0)"
    by simp
  have a2: "signature ?sg \<notin> set (processingSignatures (FillFeed_new 0))"
    by (simp add: FillFeed_new_def)
  have a3: "\<not> slot ?sg < 7" by simp
  have a4: "handleSignature sdk_none conn_throws ?sg
           ((FillFeed_new 0)\<lparr> processingSignatures :=
               Set_add (processingSignatures (FillFeed_new 0)) (signature ?sg) \<rparr>)
         = Threw (Error ''429 Too Many Requests'') ?s2"
    by (simp add: run_defs conn_throws_def)
  note t = thrown_signature_stays_and_loop_never_ends [OF a1 a2 a3 a4,
      where later = "[]" and k = 1 and c = cursor_A and listed = "[?sg]" and t = tick_running
        and endTime = 100 and ts = "[]" and polls = "[(500, id), (30500, id)]" and start = 0
        and endEarly = False and begun = 0 and ticks = "[tick_running]" and ?s0.0 = "FillFeed_new 0"
        and e' = "Error ''429 Too Many Requests''" and s' = ?s2]
  have h1: "getSignaturesForAddress conn_throws 1 (Until (lastSignature cursor_A)) = Inr [?sg]
         \<and> rev [?sg] = [] @ ?sg # [] \<and> lastSlot cursor_A = 7
         \<and> \<not> shouldEnd (FillFeed_new 0) \<and> \<not> stopRequested tick_running
         \<and> clockAtTest tick_running < 100"
    by (simp add: conn_throws_def cursor_A_def FillFeed_new_def tick_running_def)
  have h2: "\<not> ended (FillFeed_new 0)
      \<and> (\<forall>p\<in>set [(500::int, id :: FillFeed \<Rightarrow> FillFeed), (30500, id)]. snd p = id)"
    by (simp add: FillFeed_new_def)
  have h3: "\<exists>p\<in>set [(500::int, id :: FillFeed \<Rightarrow> FillFeed), (30500, id)]. fst p - 0 > TIMEOUT"
    by (simp add: TIMEOUT_def)
  from t h1 have "pollLoop sdk_none conn_throws 100 1 [tick_running] cursor_A (FillFeed_new 0)
     = Raised (Error ''429 Too Many Requests'') ?s2"
    by blast
  moreover from t h2 h3 have "stopParseLogs 0 [(500, id), (30500, id)] ?s2
     = Rejected shutdownTimeout (?s2\<lparr> shouldEnd := True \<rparr>)"
    by blast
  moreover have p: "parseLogs sdk_none conn_throws False 0 [tick_running] (FillFeed_new 0)
     = Raised (Error ''429 Too Many Requests'') ?s2"
    by (simp add: parseLogs_def index_def run_defs conn_throws_def tick_running_def)
  moreover from t p have "ended ?s2 = ended (FillFeed_new 0) \<and> wssClosed ?s2 = wssClosed (FillFeed_new 0)"
    by blast
  then have "\<not> ended ?s2 \<and> \<not> wssClosed ?s2"
    by (simp add: FillFeed_new_def)
  ultimately show ?thesis by simp
qed

section \<open>The payload of a log line\<close>

lemma split_space_field:
  "CHR '' '' \<notin> set a \<Longrightarrow> split_space (a @ CHR '' '' # r) = a # split_space r"
  by (induction a) auto

lemma split_space_single: "CHR '' '' \<notin> set a \<Longrightarrow> split_space a = [a]"
  by (induction a) auto

lemma split_space_nonempty: "split_space line \<noteq> []"
  by (induction line) (auto split: list.splits)

lemma split_space_first:
  assumes "CHR '' '' \<notin> set p" and "rest = [] \<or> hd rest = CHR '' ''"
  shows "\<exists>ts. split_space (p @ rest) = p # ts"
proof (cases rest)
  case Nil
  with assms(1) show ?thesis by (simp add: split_space_single)
next
  case (Cons c r)
  with assms(2) have "c = CHR '' ''" by simp
  with Cons assms(1) show ?thesis by (simp add: split_space_field)
qed

lemma length_split_space:
  "length (split_space line) = Suc (length (filter (\<lambda>c. c = CHR '' '') line))"
  using split_space_nonempty by (induction line) (auto split: list.splits)

lemma programData_third_field:
  assumes "CHR '' '' \<notin> set a" and "CHR '' '' \<notin> set b" and "CHR '' '' \<notin> set p"
    and "rest = [] \<or> hd rest = CHR '' ''"
  shows "programData (a @ '' '' @ b @ '' '' @ p @ rest) = Some p"
proof -
  from assms(3,4) obtain ts where "split_space (p @ rest) = p # ts"
    using split_space_first by blast
  with assms(1,2) have "split_space (a @ '' '' @ b @ '' '' @ p @ rest) = a # b # p # ts"
    by (simp add: split_space_field)
  then show ?thesis
    by (simp add: programData_def index_def)
qed

lemma whitespace_tokens_example:
  "whitespace_separated_tokens ''Program data:  AAAA'' = [''Program'', ''data:'', ''AAAA'']"
  by (simp add: whitespace_separated_tokens_def is_whitespace_def)

text \<open>
  Claim C10 says that the payload decoded is the third whitespace-separated token of the
  line. The code cuts the line at every single space. The line \<^verbatim>\<open>Program data:  AAAA\<close>,
  with two spaces after the marker, is selected and has \<^verbatim>\<open>AAAA\<close> as its third
  whitespace-separated token, but the payload is the empty field between the two spaces:
  the empty string is decoded and nothing is dispatched, where decoding \<^verbatim>\<open>AAAA\<close> dispatches
  a fill.
\<close>

theorem payload_third_whitespace_token_counterexample:
  "str_includes ''Program data:  AAAA'' ''Program data:''
   \<and> index (whitespace_separated_tokens ''Program data:  AAAA'') 2 = Some ''AAAA''
   \<and> programData ''Program data:  AAAA'' = Some []
   \<and> handleEntry sdk_decoding sig_B ''Program data:  AAAA'' (FillFeed_new 0)
       = Returned (FillFeed_new 0)
   \<and> handleEntry sdk_decoding sig_B ''Program data: AAAA'' (FillFeed_new 0)
       \<noteq> Returned (FillFeed_new 0)"
  by (simp add: whitespace_tokens_example index_def programData_def handleEntry_def
      sdk_decoding_def toStringArg_def FillFeed_new_def Let_def)

text \<open>
  Claim C10, amended. The payload is the third field of the line cut at every single
  space, whatever the first two fields are and wherever the marker stands: for a line
  whose first three fields are \<open>a\<close>, \<open>b\<close> and \<open>p\<close> (each may be empty) it is \<open>p\<close> that is given
  to \<^verbatim>\<open>atob\<close>. What \<^verbatim>\<open>atob\<close> throws on \<open>p\<close> is thrown; the bytes it returns for \<open>p\<close> are the
  ones compared with the discriminants, deserialized and dispatched. A line with fewer
  than two spaces has no third field, and \<^verbatim>\<open>atob\<close> is given \<^verbatim>\<open>undefined\<close>.
\<close>

theorem payload_is_third_space_separated_field:
  "(CHR '' '' \<notin> set a \<and> CHR '' '' \<notin> set b \<and> CHR '' '' \<notin> set p
      \<and> (rest = [] \<or> hd rest = CHR '' '') \<longrightarrow>
     programData (a @ '' '' @ b @ '' '' @ p @ rest) = Some p
     \<and> (atob sdk p = Inl e \<longrightarrow>
          handleEntry sdk sg (a @ '' '' @ b @ '' '' @ p @ rest) s = Threw e s)
     \<and> (atob sdk p = Inr buffer \<and> take 8 buffer = fillDiscriminant sdk
          \<and> FillLog_deserialize sdk (drop 8 buffer) = Inr fillLog \<longrightarrow>
          handleEntry sdk sg (a @ '' '' @ b @ '' '' @ p @ rest) s
            = Returned (s\<lparr> console := console s @
                               [GotAFill (toFillLogResult sdk fillLog (slot sg) (signature sg))],
                             fills := fills s @
                               [(toBase58 sdk (fl_market fillLog),
                                 bool_toString (fl_isMakerGlobal fillLog),
                                 bool_toString (fl_takerIsBuy fillLog))],
                             sent := sent s @
                               [Fill (toFillLogResult sdk fillLog (slot sg) (signature sg))] \<rparr>))
     \<and> (atob sdk p = Inr buffer \<and> take 8 buffer \<noteq> fillDiscriminant sdk
          \<and> take 8 buffer = placeOrderDiscriminant sdk
          \<and> PlaceOrderLog_deserialize sdk (drop 8 buffer) = Inr placeOrderLog \<longrightarrow>
          handleEntry sdk sg (a @ '' '' @ b @ '' '' @ p @ rest) s
            = Returned (s\<lparr> console := console s @
                               [GotAnOrder (toPlaceOrderLogResult sdk placeOrderLog (slot sg) (signature sg))],
                             sent := sent s @
                               [PlaceOrder (toPlaceOrderLogResult sdk placeOrderLog (slot sg) (signature sg))] \<rparr>))
     \<and> (atob sdk p = Inr buffer \<and> take 8 buffer \<noteq> fillDiscriminant sdk
          \<and> take 8 buffer \<noteq> placeOrderDiscriminant sdk \<longrightarrow>
          handleEntry sdk sg (a @ '' '' @ b @ '' '' @ p @ rest) s = Returned s))
   \<and> (length (filter (\<lambda>c. c = CHR '' '') line) < 2 \<longrightarrow>
        programData line = None
        \<and> (atob sdk ''undefined'' = Inl e \<longrightarrow> handleEntry sdk sg line s = Threw e s))"
proof -
  have third: "programData (a @ '' '' @ b @ '' '' @ p @ rest) = Some p"
    if "CHR '' '' \<notin> set a \<and> CHR '' '' \<notin> set b \<and> CHR '' '' \<notin> set p
      \<and> (rest = [] \<or> hd rest = CHR '' '')"
    using that programData_third_field [of a b p rest] by blast
  have none: "programData line = None" if "length (filter (\<lambda>c. c = CHR '' '') line) < 2"
    using that by (simp add: programData_def index_def length_split_space)
  show ?thesis
    using third none
    by (auto simp: handleEntry_def toStringArg_def Let_def)
qed

theorem payload_is_third_space_separated_field_witness:
  "programData ''Program data: AAAA'' = Some ''AAAA''
   \<and> handleEntry sdk_decoding sig_B ''Program data: AAAA'' (FillFeed_new 0)
       = Returned ((FillFeed_new 0)
           \<lparr> console := [GotAFill (toFillLogResult sdk_decoding (fillLog_priced 0) 7 ''B'')],
             fills := [([], ''false'', ''false'')],
             sent := [Fill (toFillLogResult sdk_decoding (fillLog_priced 0) 7 ''B'')] \<rparr>)
   \<and> programData ''Program log: Program data: AAAA'' = Some ''Program''
   \<and> handleEntry sdk_decoding sig_B ''Program log: Program data: AAAA'' (FillFeed_new 0)
       = Threw (Error ''InvalidCharacterError'') (FillFeed_new 0)
   \<and> handleEntry sdk_decoding sig_B ''Program data: BBBB'' (FillFeed_new 0)
       = Returned ((FillFeed_new 0)
           \<lparr> console := [GotAnOrder (toPlaceOrderLogResult sdk_decoding (placeOrderLog_priced 0) 7 ''B'')],
             sent := [PlaceOrder (toPlaceOrderLogResult sdk_decoding (placeOrderLog_priced 0) 7 ''B'')] \<rparr>)
   \<and> programData ''Program data:  AAAA'' = Some []
   \<and> handleEntry sdk_decoding sig_B ''Program data:  AAAA'' (FillFeed_new 0) = Returned (FillFeed_new 0)
   \<and> programData ''Program data:'' = None
   \<and> handleEntry sdk_decoding sig_B ''Program data:'' (FillFeed_new 0)
       = Threw (Error ''InvalidCharacterError'') (FillFeed_new 0)"
proof -
  let ?s = "FillFeed_new 0"
  have h1: "CHR '' '' \<notin> set ''Program'' \<and> CHR '' '' \<notin> set ''data:'' \<and> CHR '' '' \<notin> set ''AAAA''
      \<and> ([] = [] \<or> hd [] = CHR '' '')"
    by simp
  have d1: "atob sdk_decoding ''AAAA'' = Inr (replicate 8 0 @ [7])
      \<and> take 8 (replicate 8 0 @ [7]) = fillDiscriminant sdk_decoding
      \<and> FillLog_deserialize sdk_decoding (drop 8 (replicate 8 0 @ [7])) = Inr (fillLog_priced 0)"
    by (simp add: sdk_decoding_def)
  note t1 = payload_is_third_space_separated_field [where a = "''Program''" and b = "''data:''"
      and p = "''AAAA''" and rest = "[]" and sdk = sdk_decoding and sg = sig_B and s = ?s
      and buffer = "replicate 8 0 @ [7]" and fillLog = "fillLog_priced 0"
      and line = "''Program data:''" and e = "Error ''InvalidCharacterError''"]
  have h2: "CHR '' '' \<notin> set ''Program'' \<and> CHR '' '' \<notin> set ''log:'' \<and> CHR '' '' \<notin> set ''Program''
      \<and> ('' data: AAAA'' = [] \<or> hd '' data: AAAA'' = CHR '' '')"
    by simp
  have d2: "atob sdk_decoding ''Program'' = Inl (Error ''InvalidCharacterError'')"
    by (simp add: sdk_decoding_def)
  note t2 = payload_is_third_space_separated_field [where a = "''Program''" and b = "''log:''"
      and p = "''Program''" and rest = "'' data: AAAA''" and sdk = sdk_decoding and sg = sig_B
      and s = ?s and e = "Error ''InvalidCharacterError''" and line = "''Program data:''"]
  have h3: "CHR '' '' \<notin> set ''Program'' \<and> CHR '' '' \<notin> set ''data:'' \<and> CHR '' '' \<notin> set ''BBBB''
      \<and> ([] = [] \<or> hd [] = CHR '' '')"
    by simp
  have d3: "atob sdk_decoding ''BBBB'' = Inr (replicate 8 1 @ [7])
      \<and> take 8 (replicate 8 1 @ [7]) \<noteq> fillDiscriminant sdk_decoding
      \<and> take 8 (replicate 8 1 @ [7]) = placeOrderDiscriminant sdk_decoding
      \<and> PlaceOrderLog_deserialize sdk_decoding (drop 8 (replicate 8 1 @ [7]))
          = Inr (placeOrderLog_priced 0)"
    by (simp add: sdk_decoding_def)
  have d3': "placeOrderDiscriminant sdk_decoding \<noteq> fillDiscriminant sdk_decoding"
    by (simp add: sdk_decoding_def)
  note t3 = payload_is_third_space_separated_field [where a = "''Program''" and b = "''data:''"
      and p = "''BBBB''" and rest = "[]" and sdk = sdk_decoding and sg = sig_B and s = ?s
      and buffer = "replicate 8 1 @ [7]" and placeOrderLog = "placeOrderLog_priced 0"]
  have h4: "CHR '' '' \<notin> set ''Program'' \<and> CHR '' '' \<notin> set ''data:'' \<and> CHR '' '' \<notin> set []
      \<and> ('' AAAA'' = [] \<or> hd '' AAAA'' = CHR '' '')"
    by simp
  have d4: "atob sdk_decoding [] = Inr [] \<and> take 8 [] \<noteq> fillDiscriminant sdk_decoding
      \<and> take 8 [] \<noteq> placeOrderDiscriminant sdk_decoding"
    by (simp add: sdk_decoding_def)
  note t4 = payload_is_third_space_separated_field [where a = "''Program''" and b = "''data:''"
      and p = "[]" and rest = "'' AAAA''" and sdk = sdk_decoding and sg = sig_B and s = ?s
      and buffer = "[]"]
  have h5: "length (filter (\<lambda>c. c = CHR '' '') ''Program data:'') < 2"
    by simp
  have d5: "atob sdk_decoding ''undefined'' = Inl (Error ''InvalidCharacterError'')"
    by (simp add: sdk_decoding_def)
  have v: "slot sig_B = 7 \<and> signature sig_B = ''B'' \<and> console ?s = [] \<and> fills ?s = [] \<and> sent ?s = []"
    by (simp add: sig_B_def FillFeed_new_def)
  have m: "toBase58 sdk_decoding (fl_market (fillLog_priced 0)) = []
      \<and> bool_toString (fl_isMakerGlobal (fillLog_priced 0)) = ''false''
      \<and> bool_toString (fl_takerIsBuy (fillLog_priced 0)) = ''false''"
    by (simp add: sdk_decoding_def fillLog_priced_def bool_toString_def)
  from t1 h1 d1 v m have "programData ''Program data: AAAA'' = Some ''AAAA''
   \<and> handleEntry sdk_decoding sig_B ''Program data: AAAA'' ?s
       = Returned (?s
           \<lparr> console := [GotAFill (toFillLogResult sdk_decoding (fillLog_priced 0) 7 ''B'')],
             fills := [([], ''false'', ''false'')],
             sent := [Fill (toFillLogResult sdk_decoding (fillLog_priced 0) 7 ''B'')] \<rparr>)"
    by simp
  moreover from t2 h2 d2 have "programData ''Program log: Program data: AAAA'' = Some ''Program''
   \<and> handleEntry sdk_decoding sig_B ''Program log: Program data: AAAA'' ?s
       = Threw (Error ''InvalidCharacterError'') ?s"
    by simp
  moreover from t3 h3 d3 d3' v have "handleEntry sdk_decoding sig_B ''Program data: BBBB'' ?s
       = Returned (?s
           \<lparr> console := [GotAnOrder (toPlaceOrderLogResult sdk_decoding (placeOrderLog_priced 0) 7 ''B'')],
             sent := [PlaceOrder (toPlaceOrderLogResult sdk_decoding (placeOrderLog_priced 0) 7 ''B'')] \<rparr>)"
    by simp
  moreover from t4 h4 d4 have "programData ''Program data:  AAAA'' = Some []
   \<and> handleEntry sdk_decoding sig_B ''Program data:  AAAA'' ?s = Returned ?s"
    by simp
  moreover from t1 h5 d5 have "programData ''Program data:'' = None
   \<and> handleEntry sdk_decoding sig_B ''Program data:'' ?s
       = Threw (Error ''InvalidCharacterError'') ?s"
    by blast
  ultimately show ?thesis by blast
qed

end
